theory Spec2Isabelle
  imports Main "HOL-Library.Word"
begin

unbundle bit_operations_syntax

section \<open>The Go library functions that util.go calls\<close>

text \<open>
  Go strings are byte sequences, and so is \<open>string\<close> here. The separators and prefixes
  that util.go passes are single bytes or ASCII literals, so the library functions are
  modelled at exactly the instances the code uses.
\<close>

text \<open>
  \<open>strings.Split(s, sep)\<close> with a one-byte separator: every piece between two
  separators, so the result has one more piece than \<open>s\<close> has separators and is never
  empty (\<open>Split [] sep = [[]]\<close>). The last case of the inner \<open>case\<close> is never taken.
\<close>

fun Split :: "string \<Rightarrow> char \<Rightarrow> string list" where
  "Split [] sep = [[]]"
| "Split (c # cs) sep =
     (if c = sep then [] # Split cs sep
      else (case Split cs sep of
              p # ps \<Rightarrow> (c # p) # ps
            | [] \<Rightarrow> [[c]]))"

text \<open>
  \<open>strings.SplitN(s, sep, 2)\<close> with a one-byte separator: cut at the first separator
  only; without a separator the whole string is the single piece.
\<close>

definition SplitN2 :: "string \<Rightarrow> char \<Rightarrow> string list" where
  "SplitN2 s sep =
     (case dropWhile (\<lambda>c. c \<noteq> sep) s of
        [] \<Rightarrow> [s]
      | _ # rest \<Rightarrow> [takeWhile (\<lambda>c. c \<noteq> sep) s, rest])"

text \<open>\<open>strings.HasPrefix\<close>.\<close>

definition HasPrefix :: "string \<Rightarrow> string \<Rightarrow> bool" where
  "HasPrefix s pre = (length pre \<le> length s \<and> take (length pre) s = pre)"

text \<open>
  \<open>strconv.ParseUint(s, 10, bitSize)\<close>: the empty string, any byte that is not a decimal
  digit (a sign included) and a value above \<open>2 ^ bitSize - 1\<close> are errors. The callers
  never look into the error, so it is \<open>None\<close> here. The value never exceeds
  \<open>maxVal\<close> inside the loop, so Go's 64-bit accumulator does not wrap and \<open>int\<close> is exact.
\<close>

definition isDigit :: "char \<Rightarrow> bool" where
  "isDigit c = (48 \<le> (of_char c :: int) \<and> (of_char c :: int) \<le> 57)"

definition digitVal :: "char \<Rightarrow> int" where
  "digitVal c = of_char c - 48"

fun parseDigits :: "int \<Rightarrow> int \<Rightarrow> string \<Rightarrow> int option" where
  "parseDigits maxVal n [] = Some n"
| "parseDigits maxVal n (c # cs) =
     (if \<not> isDigit c then None
      else if n * 10 + digitVal c > maxVal then None
      else parseDigits maxVal (n * 10 + digitVal c) cs)"

definition ParseUint :: "string \<Rightarrow> nat \<Rightarrow> int option" where
  "ParseUint s bitSize = (if s = [] then None else parseDigits (2 ^ bitSize - 1) 0 s)"

text \<open>
  \<open>strings.TrimSpace\<close> on ASCII text: leading and trailing tab, newline, vertical tab,
  form feed, carriage return and space are cut. (Go also cuts the Unicode spaces beyond
  ASCII; the model is exact on ASCII strings.)
\<close>

definition isSpace :: "char \<Rightarrow> bool" where
  "isSpace c = ((of_char c :: int) = 32 \<or> (9 \<le> (of_char c :: int) \<and> (of_char c :: int) \<le> 13))"

definition TrimSpace :: "string \<Rightarrow> string" where
  "TrimSpace s = rev (dropWhile isSpace (rev (dropWhile isSpace s)))"

text \<open>
  \<open>sort.Strings\<close>: ascending in Go's string order, which compares byte by byte and puts
  a proper prefix first. Equal strings are indistinguishable, so the sorted list is
  unique and insertion sort computes it.
\<close>

fun strLess :: "string \<Rightarrow> string \<Rightarrow> bool" where
  "strLess [] [] = False"
| "strLess [] (y # ys) = True"
| "strLess (x # xs) [] = False"
| "strLess (x # xs) (y # ys) =
     ((of_char x :: int) < of_char y \<or> (x = y \<and> strLess xs ys))"

fun insertString :: "string \<Rightarrow> string list \<Rightarrow> string list" where
  "insertString s [] = [s]"
| "insertString s (t # ts) = (if strLess t s then t # insertString s ts else s # t # ts)"

fun sortStrings :: "string list \<Rightarrow> string list" where
  "sortStrings [] = []"
| "sortStrings (s # ss) = insertString s (sortStrings ss)"

text \<open>
  \<open>strings.EqualFold\<close> on ASCII text: equal up to the case of the letters A to Z.
  (Go folds by Unicode simple case folding; on ASCII strings that is this function.)
\<close>

definition toLower :: "char \<Rightarrow> char" where
  "toLower c =
     (if 65 \<le> (of_char c :: int) \<and> (of_char c :: int) \<le> 90
      then char_of ((of_char c :: int) + 32) else c)"

fun EqualFold :: "string \<Rightarrow> string \<Rightarrow> bool" where
  "EqualFold [] [] = True"
| "EqualFold (x # xs) (y # ys) = (toLower x = toLower y \<and> EqualFold xs ys)"
| "EqualFold _ _ = False"

section \<open>The data model\<close>

datatype error =
    ErrExtractCodecRtpmap
  | ErrExtractCodecFmtp
  | ErrExtractCodecRtcpFb
  | ErrPayloadTypeNotFound
  | ErrCodecNotFound
  | ErrSyntaxError
  | ErrFieldMissing
  | ErrNumError \<comment> \<open>the \<open>*strconv.NumError\<close> of a failed \<open>ParseUint\<close>\<close>

record Codec =
  PayloadType :: "8 word"
  Name :: string
  ClockRate :: "32 word"
  EncodingParameters :: string
  Fmtp :: string
  RTCPFeedback :: "string list"

text \<open>The zero value of \<open>Codec\<close> (\<open>var codec Codec\<close>); a nil slice is the empty list.\<close>

definition zeroCodec :: Codec where
  "zeroCodec = \<lparr>PayloadType = 0, Name = [], ClockRate = 0, EncodingParameters = [],
                Fmtp = [], RTCPFeedback = []\<rparr>"

text \<open>
  Modelled from the spec: the declaration of \<open>Attribute\<close> is not in util.go. An
  attribute has a key and an optional value; an absent value is the empty string.
\<close>

record Attribute =
  Key :: string
  Value :: string

text \<open>
  Modelled from the spec: the method \<open>Attribute.String\<close> is not in util.go. An
  attribute is serialized as \<open>key\<close>, or as \<open>key:value\<close> when it has a value.
\<close>

definition String :: "Attribute \<Rightarrow> string" where
  "String a = (if Value a = [] then Key a else Key a @ '':'' @ Value a)"

text \<open>
  Modelled from the spec: the declaration of \<open>MediaDescription\<close> is not in util.go.
  A media description owns an ordered list of attributes. Its other fields, which the
  codec engine never reads, are the extension part of the record.
\<close>

record MediaDescription =
  Attributes :: "Attribute list"

text \<open>
  Modelled from the spec: the declaration of \<open>SessionDescription\<close> is not in util.go.
  A session description owns an ordered list of media descriptions, stored in the order
  of the input. Its other fields are the extension part of the record, so every
  statement below holds whatever they contain.
\<close>

record 'm SessionDescription =
  MediaDescriptions :: "'m MediaDescription_scheme list"

section \<open>Session identifiers\<close>

text \<open>
  \<open>newSessionID\<close> masks what \<open>randutil.CryptoUint64\<close> returns. The generator is
  outside the repository: its outcome, a 64-bit value and an error or nil, is the
  argument.
\<close>

definition newSessionID :: "64 word \<times> 'e option \<Rightarrow> 64 word \<times> 'e option" where
  "newSessionID rng = (case rng of (id0, err) \<Rightarrow> (id0 AND NOT (push_bit 63 1), err))"

section \<open>Decoding the attributes\<close>

definition appendRTCPFeedback :: "Codec \<Rightarrow> string \<Rightarrow> Codec" where
  "appendRTCPFeedback c rtcpFeedback =
     (if rtcpFeedback \<in> set (RTCPFeedback c) then c
      else c\<lparr>RTCPFeedback := RTCPFeedback c @ [rtcpFeedback]\<rparr>)"

text \<open>
  The three decoders return the codec and a nil error, or an error. On an error Go also
  returns the partly filled codec, which no caller reads. \<open>Split\<close> never returns the
  empty list, so the branch of \<open>parseRtpmap\<close> for it is never taken.
\<close>

definition parseRtpmap :: "string \<Rightarrow> error + Codec" where
  "parseRtpmap rtpmap =
     (case Split rtpmap CHR '' '' of
        [s0, s1] \<Rightarrow>
          (case Split s0 CHR '':'' of
             [_, pt] \<Rightarrow>
               (case ParseUint pt 8 of
                  None \<Rightarrow> Inl ErrExtractCodecRtpmap
                | Some ptInt \<Rightarrow>
                    (case Split s1 CHR ''/'' of
                       [] \<Rightarrow> Inl ErrExtractCodecRtpmap
                     | name # rest \<Rightarrow>
                         (let codec = zeroCodec\<lparr>PayloadType := of_int ptInt, Name := name\<rparr>
                          in case rest of
                               [] \<Rightarrow> Inr codec
                             | r # rest' \<Rightarrow>
                                 (case ParseUint r 32 of
                                    None \<Rightarrow> Inl ErrExtractCodecRtpmap
                                  | Some rate \<Rightarrow>
                                      (let codec = codec\<lparr>ClockRate := of_int rate\<rparr>
                                       in case rest' of
                                            [] \<Rightarrow> Inr codec
                                          | e # _ \<Rightarrow> Inr (codec\<lparr>EncodingParameters := e\<rparr>))))))
           | _ \<Rightarrow> Inl ErrExtractCodecRtpmap)
      | _ \<Rightarrow> Inl ErrExtractCodecRtpmap)"

definition parseFmtp :: "string \<Rightarrow> error + Codec" where
  "parseFmtp fmtp =
     (case SplitN2 fmtp CHR '' '' of
        [s0, formatParams] \<Rightarrow>
          (case Split s0 CHR '':'' of
             [_, pt] \<Rightarrow>
               (case ParseUint pt 8 of
                  None \<Rightarrow> Inl ErrExtractCodecFmtp
                | Some ptInt \<Rightarrow>
                    Inr (zeroCodec\<lparr>PayloadType := of_int ptInt, Fmtp := formatParams\<rparr>))
           | _ \<Rightarrow> Inl ErrExtractCodecFmtp)
      | _ \<Rightarrow> Inl ErrExtractCodecFmtp)"

text \<open>
  \<open>parseRtcpFb\<close> returns the codec and the wildcard flag. Its error is a named result:
  where \<open>ParseUint\<close> fails it is the error of \<open>ParseUint\<close>, elsewhere
  \<open>errExtractCodecRtcpFb\<close>.
\<close>

definition parseRtcpFb :: "string \<Rightarrow> error + Codec \<times> bool" where
  "parseRtcpFb rtcpFb =
     (case SplitN2 rtcpFb CHR '' '' of
        [s0, fb] \<Rightarrow>
          (case Split s0 CHR '':'' of
             [_, pt] \<Rightarrow>
               (if pt = ''*'' then Inr (zeroCodec\<lparr>RTCPFeedback := [fb]\<rparr>, True)
                else (case ParseUint pt 8 of
                        None \<Rightarrow> Inl ErrNumError
                      | Some ptInt \<Rightarrow>
                          Inr (zeroCodec\<lparr>PayloadType := of_int ptInt, RTCPFeedback := [fb]\<rparr>,
                               False)))
           | _ \<Rightarrow> Inl ErrExtractCodecRtcpFb)
      | _ \<Rightarrow> Inl ErrExtractCodecRtcpFb)"

section \<open>Merging the fragments\<close>

text \<open>
  The Go map \<open>map[uint8]Codec\<close> is a partial function. Reading an absent key gives the
  zero codec.
\<close>

type_synonym codecs = "8 word \<rightharpoonup> Codec"

definition lookupCodec :: "codecs \<Rightarrow> 8 word \<Rightarrow> Codec" where
  "lookupCodec codecs k = (case codecs k of None \<Rightarrow> zeroCodec | Some c \<Rightarrow> c)"

definition mergeCodecs :: "Codec \<Rightarrow> codecs \<Rightarrow> codecs" where
  "mergeCodecs codec codecs =
     (let savedCodec = lookupCodec codecs (PayloadType codec);
          savedCodec = (if PayloadType savedCodec = 0
                        then savedCodec\<lparr>PayloadType := PayloadType codec\<rparr> else savedCodec);
          savedCodec = (if Name savedCodec = []
                        then savedCodec\<lparr>Name := Name codec\<rparr> else savedCodec);
          savedCodec = (if ClockRate savedCodec = 0
                        then savedCodec\<lparr>ClockRate := ClockRate codec\<rparr> else savedCodec);
          savedCodec = (if EncodingParameters savedCodec = []
                        then savedCodec\<lparr>EncodingParameters := EncodingParameters codec\<rparr>
                        else savedCodec);
          savedCodec = (if Fmtp savedCodec = []
                        then savedCodec\<lparr>Fmtp := Fmtp codec\<rparr> else savedCodec);
          savedCodec = savedCodec\<lparr>RTCPFeedback := RTCPFeedback savedCodec @ RTCPFeedback codec\<rparr>
      in codecs(PayloadType savedCodec \<mapsto> savedCodec))"

text \<open>
  The body of the two nested loops of \<open>buildCodecMap\<close>: one attribute string updates the
  map and the list of wildcard feedback.
\<close>

definition scanAttribute :: "string \<Rightarrow> codecs \<times> string list \<Rightarrow> codecs \<times> string list" where
  "scanAttribute attr st =
     (case st of (codecs, wildcardRTCPFeedback) \<Rightarrow>
        if HasPrefix attr ''rtpmap:'' then
          (case parseRtpmap attr of
             Inr codec \<Rightarrow> (mergeCodecs codec codecs, wildcardRTCPFeedback)
           | Inl _ \<Rightarrow> st)
        else if HasPrefix attr ''fmtp:'' then
          (case parseFmtp attr of
             Inr codec \<Rightarrow> (mergeCodecs codec codecs, wildcardRTCPFeedback)
           | Inl _ \<Rightarrow> st)
        else if HasPrefix attr ''rtcp-fb:'' then
          (case parseRtcpFb attr of
             Inl _ \<Rightarrow> st
           | Inr (codec, isWildcard) \<Rightarrow>
               if isWildcard then (codecs, wildcardRTCPFeedback @ RTCPFeedback codec)
               else (mergeCodecs codec codecs, wildcardRTCPFeedback))
        else st)"

fun scanAttributes :: "Attribute list \<Rightarrow> codecs \<times> string list \<Rightarrow> codecs \<times> string list" where
  "scanAttributes [] st = st"
| "scanAttributes (a # as) st = scanAttributes as (scanAttribute (String a) st)"

fun scanMedia ::
  "'m MediaDescription_scheme list \<Rightarrow> codecs \<times> string list \<Rightarrow> codecs \<times> string list" where
  "scanMedia [] st = st"
| "scanMedia (m # ms) st = scanMedia ms (scanAttributes (Attributes m) st)"

text \<open>The static codecs that the map starts with.\<close>

definition staticCodecs :: codecs where
  "staticCodecs =
     [0 \<mapsto> zeroCodec\<lparr>PayloadType := 0, Name := ''PCMU'', ClockRate := 8000\<rparr>,
      8 \<mapsto> zeroCodec\<lparr>PayloadType := 8, Name := ''PCMA'', ClockRate := 8000\<rparr>]"

fun appendAllFeedback :: "Codec \<Rightarrow> string list \<Rightarrow> Codec" where
  "appendAllFeedback codec [] = codec"
| "appendAllFeedback codec (f # fs) = appendAllFeedback (appendRTCPFeedback codec f) fs"

text \<open>
  The last loop of \<open>buildCodecMap\<close> ranges over the map and stores each codec back under
  its own key, in an order that Go leaves open. \<open>applyWildcardIn\<close> is the loop along an
  enumeration \<open>ks\<close> of the keys; \<open>applyWildcard\<close> is its result, which does not depend
  on the enumeration (lemma \<open>applyWildcardIn_any_order\<close>).
\<close>

fun applyWildcardIn :: "8 word list \<Rightarrow> string list \<Rightarrow> codecs \<Rightarrow> codecs" where
  "applyWildcardIn [] wildcardRTCPFeedback codecs = codecs"
| "applyWildcardIn (i # ks) wildcardRTCPFeedback codecs =
     applyWildcardIn ks wildcardRTCPFeedback
       (case codecs i of
          None \<Rightarrow> codecs
        | Some codec \<Rightarrow> codecs(i \<mapsto> appendAllFeedback codec wildcardRTCPFeedback))"

definition applyWildcard :: "string list \<Rightarrow> codecs \<Rightarrow> codecs" where
  "applyWildcard wildcardRTCPFeedback codecs =
     (\<lambda>i. case codecs i of
            None \<Rightarrow> None
          | Some codec \<Rightarrow> Some (appendAllFeedback codec wildcardRTCPFeedback))"

text \<open>\<open>rangeOrder codecs ks\<close>: \<open>ks\<close> is an order in which \<open>range codecs\<close> may visit the keys.\<close>

definition rangeOrder :: "codecs \<Rightarrow> 8 word list \<Rightarrow> bool" where
  "rangeOrder codecs ks = (distinct ks \<and> set ks = dom codecs)"

text \<open>
  The methods have a pointer receiver, so each returns, next to its Go results, the
  session description as the call leaves it.
\<close>

definition buildCodecMap ::
  "('m, 's) SessionDescription_scheme \<Rightarrow> codecs \<times> ('m, 's) SessionDescription_scheme" where
  "buildCodecMap s =
     (case scanMedia (MediaDescriptions s) (staticCodecs, []) of
        (codecs, wildcardRTCPFeedback) \<Rightarrow> (applyWildcard wildcardRTCPFeedback codecs, s))"

section \<open>Matching\<close>

text \<open>
  The loop of \<open>equivalentFmtp\<close> over the two sorted lists. They have the same length
  when the loop starts, so the last equation (an index out of range) is never reached.
\<close>

fun partsEqual :: "string list \<Rightarrow> string list \<Rightarrow> bool" where
  "partsEqual [] gotSplit = True"
| "partsEqual (wantPart # ws) (gotPart # gs) =
     (if TrimSpace gotPart \<noteq> TrimSpace wantPart then False else partsEqual ws gs)"
| "partsEqual (wantPart # ws) [] = False"

definition equivalentFmtp :: "string \<Rightarrow> string \<Rightarrow> bool" where
  "equivalentFmtp want got =
     (let wantSplit = Split want CHR '';''; gotSplit = Split got CHR '';''
      in if length wantSplit \<noteq> length gotSplit then False
         else partsEqual (sortStrings wantSplit) (sortStrings gotSplit))"

definition codecsMatch :: "Codec \<Rightarrow> Codec \<Rightarrow> bool" where
  "codecsMatch wanted got =
     (if Name wanted \<noteq> [] \<and> \<not> EqualFold (Name wanted) (Name got) then False
      else if ClockRate wanted \<noteq> 0 \<and> ClockRate wanted \<noteq> ClockRate got then False
      else if EncodingParameters wanted \<noteq> []
              \<and> EncodingParameters wanted \<noteq> EncodingParameters got then False
      else if Fmtp wanted \<noteq> [] \<and> \<not> equivalentFmtp (Fmtp wanted) (Fmtp got) then False
      else True)"

section \<open>The queries\<close>

definition GetCodecForPayloadType ::
  "('m, 's) SessionDescription_scheme \<Rightarrow> 8 word
     \<Rightarrow> (error + Codec) \<times> ('m, 's) SessionDescription_scheme" where
  "GetCodecForPayloadType s payloadType =
     (case buildCodecMap s of
        (codecs, s') \<Rightarrow>
          (case codecs payloadType of
             Some codec \<Rightarrow> (Inr codec, s')
           | None \<Rightarrow> (Inl ErrPayloadTypeNotFound, s')))"

fun lookupAll :: "codecs \<Rightarrow> 8 word list \<Rightarrow> Codec list" where
  "lookupAll codecs [] = []"
| "lookupAll codecs (payloadType # pts) =
     (case codecs payloadType of
        Some codec \<Rightarrow> codec # lookupAll codecs pts
      | None \<Rightarrow> lookupAll codecs pts)"

definition GetCodecsForPayloadTypes ::
  "('m, 's) SessionDescription_scheme \<Rightarrow> 8 word list
     \<Rightarrow> (error + Codec list) \<times> ('m, 's) SessionDescription_scheme" where
  "GetCodecsForPayloadTypes s payloadTypes =
     (case buildCodecMap s of
        (codecs, s') \<Rightarrow> (Inr (lookupAll codecs payloadTypes), s'))"

text \<open>
  \<open>GetPayloadTypeForCodec\<close> ranges over the map and returns at the first match, so its
  result can depend on the order of the visit. The order is the argument \<open>ks\<close>, an
  enumeration of the keys of the map (\<open>rangeOrder\<close>).
\<close>

fun firstMatch :: "Codec \<Rightarrow> codecs \<Rightarrow> 8 word list \<Rightarrow> error + 8 word" where
  "firstMatch wanted codecs [] = Inl ErrCodecNotFound"
| "firstMatch wanted codecs (payloadType # ks) =
     (case codecs payloadType of
        Some codec \<Rightarrow>
          (if codecsMatch wanted codec then Inr payloadType
           else firstMatch wanted codecs ks)
      | None \<Rightarrow> firstMatch wanted codecs ks)"

definition GetPayloadTypeForCodec ::
  "8 word list \<Rightarrow> ('m, 's) SessionDescription_scheme \<Rightarrow> Codec
     \<Rightarrow> (error + 8 word) \<times> ('m, 's) SessionDescription_scheme" where
  "GetPayloadTypeForCodec ks s wanted =
     (case buildCodecMap s of
        (codecs, s') \<Rightarrow> (firstMatch wanted codecs ks, s'))"

section \<open>Notions used in the statements\<close>

text \<open>The attribute strings of a session in the order in which \<open>buildCodecMap\<close> reads them.\<close>

definition attributeStrings :: "('m, 's) SessionDescription_scheme \<Rightarrow> string list" where
  "attributeStrings s = map String (concat (map Attributes (MediaDescriptions s)))"

text \<open>Every codec of the map is stored under its own payload type.\<close>

definition keyed :: "codecs \<Rightarrow> bool" where
  "keyed codecs = (\<forall>k c. codecs k = Some c \<longrightarrow> PayloadType c = k)"

text \<open>
  \<open>extends c c'\<close>: \<open>c'\<close> has every scalar field that \<open>c\<close> has set, and its feedback
  list starts with the one of \<open>c\<close>. Merging only ever extends a stored codec.
\<close>

definition extends :: "Codec \<Rightarrow> Codec \<Rightarrow> bool" where
  "extends c c' =
     (PayloadType c' = PayloadType c
      \<and> (Name c \<noteq> [] \<longrightarrow> Name c' = Name c)
      \<and> (ClockRate c \<noteq> 0 \<longrightarrow> ClockRate c' = ClockRate c)
      \<and> (EncodingParameters c \<noteq> [] \<longrightarrow> EncodingParameters c' = EncodingParameters c)
      \<and> (Fmtp c \<noteq> [] \<longrightarrow> Fmtp c' = Fmtp c)
      \<and> (\<exists>ys. RTCPFeedback c' = RTCPFeedback c @ ys))"

text \<open>The attribute strings that \<open>buildCodecMap\<close> hands to a decoder.\<close>

definition matching :: "string \<Rightarrow> bool" where
  "matching attr = (HasPrefix attr ''rtpmap:'' \<or> HasPrefix attr ''fmtp:'' \<or> HasPrefix attr ''rtcp-fb:'')"

text \<open>
  The feedback that one attribute string contributes as a wildcard: an attribute of the
  form \<open>rtcp-fb:* <feedback>\<close> contributes the text after the first space, any other
  attribute nothing. \<open>wildcardFeedbacks\<close> collects them over the session, in order.
\<close>

definition wildcardFeedback :: "string \<Rightarrow> string list" where
  "wildcardFeedback attr = (if HasPrefix attr ''rtcp-fb:* '' then [drop 10 attr] else [])"

definition wildcardFeedbacks :: "('m, 's) SessionDescription_scheme \<Rightarrow> string list" where
  "wildcardFeedbacks s = concat (map wildcardFeedback (attributeStrings s))"

text \<open>
  An attribute string that \<open>buildCodecMap\<close> hands to a decoder and that the decoder
  rejects; \<open>dropUndecodable\<close> removes these attributes from every media description.
\<close>

definition undecodable :: "string \<Rightarrow> bool" where
  "undecodable attr =
     (if HasPrefix attr ''rtpmap:'' then isl (parseRtpmap attr)
      else if HasPrefix attr ''fmtp:'' then isl (parseFmtp attr)
      else if HasPrefix attr ''rtcp-fb:'' then isl (parseRtcpFb attr)
      else False)"

definition dropUndecodable ::
  "('m, 's) SessionDescription_scheme \<Rightarrow> ('m, 's) SessionDescription_scheme" where
  "dropUndecodable s =
     s\<lparr>MediaDescriptions :=
         map (\<lambda>m. m\<lparr>Attributes := filter (\<lambda>a. \<not> undecodable (String a)) (Attributes m)\<rparr>)
             (MediaDescriptions s)\<rparr>"

section \<open>Facts about the library functions\<close>

lemma Split_not_Nil: "Split s sep \<noteq> []"
  by (induction s) (auto split: list.splits)

lemma Split_no_sep: "sep \<notin> set s \<Longrightarrow> Split s sep = [s]"
  by (induction s) auto

lemma Split_at_first: "sep \<notin> set a \<Longrightarrow> Split (a @ sep # b) sep = a # Split b sep"
  by (induction a) auto

lemma parseDigits_isDigit: "parseDigits m n s = Some k \<Longrightarrow> \<forall>c \<in> set s. isDigit c"
  by (induction s arbitrary: n) (auto split: if_splits)

lemma ParseUint_isDigit: "ParseUint s b = Some k \<Longrightarrow> \<forall>c \<in> set s. isDigit c"
  unfolding ParseUint_def by (auto split: if_splits dest: parseDigits_isDigit)

lemma isDigit_not_space: "\<not> isDigit (CHR '' '')"
  by (simp add: isDigit_def)

lemma isDigit_not_colon: "\<not> isDigit (CHR '':'')"
  by (simp add: isDigit_def)

lemma mask63: "NOT (push_bit 63 (1 :: 64 word)) = mask 63"
  by (simp add: mask_eq_exp_minus_1)

section \<open>Facts about merging and the scan\<close>

lemma extends_refl: "extends c c"
  by (simp add: extends_def)

lemma extends_trans: "extends a b \<Longrightarrow> extends b c \<Longrightarrow> extends a c"
  by (auto simp: extends_def)

lemma keyed_lookup:
  "keyed codecs \<Longrightarrow> PayloadType (lookupCodec codecs k) = 0 \<or> PayloadType (lookupCodec codecs k) = k"
  by (auto simp: keyed_def lookupCodec_def zeroCodec_def split: option.splits)

lemma mergeCodecs_keyed_eq:
  assumes "keyed codecs"
  shows "mergeCodecs codec codecs =
           codecs(PayloadType codec \<mapsto>
             \<lparr>PayloadType = PayloadType codec,
              Name = (if Name (lookupCodec codecs (PayloadType codec)) = [] then Name codec
                      else Name (lookupCodec codecs (PayloadType codec))),
              ClockRate = (if ClockRate (lookupCodec codecs (PayloadType codec)) = 0
                      then ClockRate codec
                      else ClockRate (lookupCodec codecs (PayloadType codec))),
              EncodingParameters =
                     (if EncodingParameters (lookupCodec codecs (PayloadType codec)) = []
                      then EncodingParameters codec
                      else EncodingParameters (lookupCodec codecs (PayloadType codec))),
              Fmtp = (if Fmtp (lookupCodec codecs (PayloadType codec)) = [] then Fmtp codec
                      else Fmtp (lookupCodec codecs (PayloadType codec))),
              RTCPFeedback =
                RTCPFeedback (lookupCodec codecs (PayloadType codec)) @ RTCPFeedback codec\<rparr>)"
  using keyed_lookup [OF assms, of "PayloadType codec"]
  by (auto simp: mergeCodecs_def Let_def)

lemma keyed_mergeCodecs: "keyed codecs \<Longrightarrow> keyed (mergeCodecs codec codecs)"
  by (subst mergeCodecs_keyed_eq) (auto simp: keyed_def)

lemma keyed_staticCodecs: "keyed staticCodecs"
  by (simp add: keyed_def staticCodecs_def zeroCodec_def)

lemma mergeCodecs_extends:
  assumes k: "keyed codecs" and c: "codecs i = Some c"
  shows "\<exists>c'. mergeCodecs codec codecs i = Some c' \<and> extends c c'"
proof (cases "i = PayloadType codec")
  case True
  with k c have pt: "PayloadType c = PayloadType codec" by (simp add: keyed_def)
  from True c have l: "lookupCodec codecs (PayloadType codec) = c" by (simp add: lookupCodec_def)
  show ?thesis
    by (subst mergeCodecs_keyed_eq [OF k]) (simp add: True l extends_def pt)
next
  case False
  then show ?thesis
    by (subst mergeCodecs_keyed_eq [OF k]) (simp add: c extends_refl)
qed

lemma mergeCodecs_dom:
  "keyed codecs \<Longrightarrow> dom (mergeCodecs codec codecs) = insert (PayloadType codec) (dom codecs)"
  by (subst mergeCodecs_keyed_eq) auto

lemma scanAttribute_keyed: "keyed (fst st) \<Longrightarrow> keyed (fst (scanAttribute attr st))"
  by (cases st) (auto simp: scanAttribute_def keyed_mergeCodecs split: sum.splits)

lemma scanAttribute_extends:
  assumes "keyed (fst st)" and "fst st i = Some c"
  shows "\<exists>c'. fst (scanAttribute attr st) i = Some c' \<and> extends c c'"
  using assms
  by (cases st) (auto simp: scanAttribute_def mergeCodecs_extends extends_refl split: sum.splits)

lemma fold_scanAttribute_keyed: "keyed (fst st) \<Longrightarrow> keyed (fst (fold scanAttribute xs st))"
  by (induction xs arbitrary: st) (auto simp: scanAttribute_keyed)

lemma fold_scanAttribute_extends:
  "keyed (fst st) \<Longrightarrow> fst st i = Some c
     \<Longrightarrow> \<exists>c'. fst (fold scanAttribute xs st) i = Some c' \<and> extends c c'"
proof (induction xs arbitrary: st c)
  case Nil
  then show ?case by (auto simp: extends_refl)
next
  case (Cons x xs)
  from scanAttribute_extends [OF Cons.prems]
  obtain c1 where c1: "fst (scanAttribute x st) i = Some c1" "extends c c1" by blast
  from Cons.IH [OF scanAttribute_keyed [OF Cons.prems(1)] c1(1)]
  obtain c' where "fst (fold scanAttribute xs (scanAttribute x st)) i = Some c'" "extends c1 c'"
    by blast
  with c1(2) show ?case by (auto intro: extends_trans)
qed

lemma scanAttributes_fold: "scanAttributes as st = fold scanAttribute (map String as) st"
  by (induction as arbitrary: st) auto

lemma scanMedia_fold:
  "scanMedia ms st = fold scanAttribute (map String (concat (map Attributes ms))) st"
  by (induction ms arbitrary: st) (auto simp: scanAttributes_fold)

lemma scanMedia_attributeStrings:
  "scanMedia (MediaDescriptions s) st = fold scanAttribute (attributeStrings s) st"
  by (simp add: scanMedia_fold attributeStrings_def)

lemma buildCodecMap_eq:
  "fst (buildCodecMap s) =
     applyWildcard (snd (fold scanAttribute (attributeStrings s) (staticCodecs, [])))
                   (fst (fold scanAttribute (attributeStrings s) (staticCodecs, [])))"
  by (simp add: buildCodecMap_def scanMedia_attributeStrings split: prod.splits)

section \<open>Facts about the wildcard loop\<close>

lemma appendRTCPFeedback_fields:
  "PayloadType (appendRTCPFeedback c f) = PayloadType c"
  "Name (appendRTCPFeedback c f) = Name c"
  "ClockRate (appendRTCPFeedback c f) = ClockRate c"
  "EncodingParameters (appendRTCPFeedback c f) = EncodingParameters c"
  "Fmtp (appendRTCPFeedback c f) = Fmtp c"
  by (simp_all add: appendRTCPFeedback_def)

lemma appendAllFeedback_fields:
  "PayloadType (appendAllFeedback c fs) = PayloadType c"
  "Name (appendAllFeedback c fs) = Name c"
  "ClockRate (appendAllFeedback c fs) = ClockRate c"
  "EncodingParameters (appendAllFeedback c fs) = EncodingParameters c"
  "Fmtp (appendAllFeedback c fs) = Fmtp c"
  by (induction fs arbitrary: c) (simp_all add: appendRTCPFeedback_fields)

lemma appendAllFeedback_feedback:
  "\<exists>ys. RTCPFeedback (appendAllFeedback c fs) = RTCPFeedback c @ ys
        \<and> distinct ys \<and> set ys = set fs - set (RTCPFeedback c)"
proof (induction fs arbitrary: c)
  case Nil
  then show ?case by simp
next
  case (Cons f fs)
  show ?case
  proof (cases "f \<in> set (RTCPFeedback c)")
    case True
    then have "appendRTCPFeedback c f = c" by (simp add: appendRTCPFeedback_def)
    with Cons.IH [of c] True show ?thesis by auto
  next
    case False
    then have r: "RTCPFeedback (appendRTCPFeedback c f) = RTCPFeedback c @ [f]"
      by (simp add: appendRTCPFeedback_def)
    from Cons.IH [of "appendRTCPFeedback c f"] obtain ys where
      ys: "RTCPFeedback (appendAllFeedback (appendRTCPFeedback c f) fs) = (RTCPFeedback c @ [f]) @ ys"
        "distinct ys" "set ys = set fs - set (RTCPFeedback c @ [f])"
      unfolding r by blast
    have "distinct (f # ys)" using ys by auto
    moreover have "set (f # ys) = set (f # fs) - set (RTCPFeedback c)"
      using ys False by auto
    moreover have "RTCPFeedback (appendAllFeedback c (f # fs)) = RTCPFeedback c @ (f # ys)"
      using ys(1) by simp
    ultimately show ?thesis by blast
  qed
qed

lemma appendAllFeedback_record:
  "appendAllFeedback c fs = c\<lparr>RTCPFeedback := RTCPFeedback (appendAllFeedback c fs)\<rparr>"
  by (rule Codec.equality) (simp_all add: appendAllFeedback_fields)

lemma applyWildcardIn_other:
  "i \<notin> set ks \<Longrightarrow> applyWildcardIn ks w codecs i = codecs i"
  by (induction ks arbitrary: codecs) (auto split: option.splits)

lemma applyWildcardIn_pointwise:
  "distinct ks \<Longrightarrow>
   applyWildcardIn ks w codecs i =
     (if i \<in> set ks then applyWildcard w codecs i else codecs i)"
proof (induction ks arbitrary: codecs)
  case Nil
  then show ?case by simp
next
  case (Cons k ks)
  then show ?case
    by (auto simp: applyWildcard_def applyWildcardIn_other split: option.splits)
qed

lemma applyWildcardIn_any_order:
  assumes "rangeOrder codecs ks"
  shows "applyWildcardIn ks w codecs = applyWildcard w codecs"
proof
  fix i
  from assms have d: "distinct ks" and s: "set ks = dom codecs"
    by (simp_all add: rangeOrder_def)
  show "applyWildcardIn ks w codecs i = applyWildcard w codecs i"
    using s by (auto simp: applyWildcardIn_pointwise [OF d] applyWildcard_def split: option.splits)
qed

section \<open>Facts about the map of a session\<close>

lemma GetCodecForPayloadType_fst:
  "fst (GetCodecForPayloadType s pt) =
     (case fst (buildCodecMap s) pt of Some c \<Rightarrow> Inr c | None \<Rightarrow> Inl ErrPayloadTypeNotFound)"
  by (simp add: GetCodecForPayloadType_def split: prod.splits option.splits)

lemma buildCodecMap_static:
  assumes "staticCodecs i = Some c0"
  shows "\<exists>c. fst (buildCodecMap s) i = Some c \<and> PayloadType c = PayloadType c0
           \<and> (Name c0 \<noteq> [] \<longrightarrow> Name c = Name c0)
           \<and> (ClockRate c0 \<noteq> 0 \<longrightarrow> ClockRate c = ClockRate c0)"
proof -
  have k: "keyed (fst (staticCodecs, ([] :: string list)))"
    by (simp add: keyed_staticCodecs)
  from assms have c0: "fst (staticCodecs, ([] :: string list)) i = Some c0" by simp
  from fold_scanAttribute_extends [OF k c0, of "attributeStrings s"]
  obtain c' where c': "fst (fold scanAttribute (attributeStrings s) (staticCodecs, [])) i = Some c'"
    and e: "extends c0 c'" by blast
  show ?thesis
    using e by (simp add: buildCodecMap_eq applyWildcard_def c' appendAllFeedback_fields extends_def)
qed

lemma scanAttribute_not_matching: "\<not> matching attr \<Longrightarrow> scanAttribute attr st = st"
  by (cases st) (simp add: scanAttribute_def matching_def)

lemma fold_scanAttribute_not_matching:
  "\<forall>a \<in> set xs. \<not> matching a \<Longrightarrow> fold scanAttribute xs st = st"
  by (induction xs arbitrary: st) (simp_all add: scanAttribute_not_matching)

lemma applyWildcard_Nil: "applyWildcard [] codecs = codecs"
  by (rule ext) (simp add: applyWildcard_def split: option.splits)

section \<open>Wildcard attributes and what the scan collects\<close>

lemma Split_singleton: "Split r sep = [p] \<Longrightarrow> p = r \<and> sep \<notin> set r"
proof (induction r arbitrary: p)
  case Nil
  then show ?case by simp
next
  case (Cons c cs)
  show ?case
  proof (cases "c = sep")
    case True
    with Cons.prems Split_not_Nil [of cs sep] show ?thesis by simp
  next
    case False
    with Cons.prems Split_not_Nil [of cs sep] obtain p' where "Split cs sep = [p']" "p = c # p'"
      by (auto split: list.splits)
    with Cons.IH [of p'] False show ?thesis by auto
  qed
qed

lemma HasPrefix_append: "HasPrefix s pre \<longleftrightarrow> (\<exists>r. s = pre @ r)"
proof
  assume "HasPrefix s pre"
  then have "s = pre @ drop (length pre) s"
    unfolding HasPrefix_def by (metis append_take_drop_id)
  then show "\<exists>r. s = pre @ r" ..
next
  assume "\<exists>r. s = pre @ r"
  then show "HasPrefix s pre" by (auto simp: HasPrefix_def)
qed

lemma takeWhile_upto_sep: "sep \<notin> set a \<Longrightarrow> takeWhile (\<lambda>c. c \<noteq> sep) (a @ sep # b) = a"
  by (induction a) auto

lemma dropWhile_upto_sep: "sep \<notin> set a \<Longrightarrow> dropWhile (\<lambda>c. c \<noteq> sep) (a @ sep # b) = sep # b"
  by (induction a) auto

lemma SplitN2_at_first:
  "sep \<notin> set a \<Longrightarrow> SplitN2 (a @ sep # b) sep = [a, b]"
  by (simp add: SplitN2_def takeWhile_upto_sep dropWhile_upto_sep)

lemma SplitN2_pair:
  assumes "SplitN2 s sep = [a, b]"
  shows "a = takeWhile (\<lambda>c. c \<noteq> sep) s" and "s = a @ sep # b"
proof -
  from assms obtain x where d: "dropWhile (\<lambda>c. c \<noteq> sep) s = x # b"
    and a: "a = takeWhile (\<lambda>c. c \<noteq> sep) s"
    unfolding SplitN2_def by (auto split: list.splits)
  from d have "x = sep"
    using hd_dropWhile [of "\<lambda>c. c \<noteq> sep" s] by auto
  with d a takeWhile_dropWhile_id [of "\<lambda>c. c \<noteq> sep" s]
  show "s = a @ sep # b" by simp
  show "a = takeWhile (\<lambda>c. c \<noteq> sep) s" by (rule a)
qed

lemma parseRtcpFb_wildcard_form:
  "parseRtcpFb (''rtcp-fb:* '' @ fb) = Inr (zeroCodec\<lparr>RTCPFeedback := [fb]\<rparr>, True)"
proof -
  have "SplitN2 (''rtcp-fb:*'' @ CHR '' '' # fb) CHR '' '' = [''rtcp-fb:*'', fb]"
    by (rule SplitN2_at_first) simp
  then have s1: "SplitN2 (''rtcp-fb:* '' @ fb) CHR '' '' = [''rtcp-fb:*'', fb]" by simp
  have s2: "Split ''rtcp-fb:*'' CHR '':'' = [''rtcp-fb'', ''*'']" by simp
  show ?thesis
    unfolding parseRtcpFb_def by (simp only: s1 s2 list.case) simp
qed

lemma parseRtcpFb_wildcard_only:
  assumes p: "HasPrefix attr ''rtcp-fb:''" and w: "parseRtcpFb attr = Inr (codec, True)"
  shows "HasPrefix attr ''rtcp-fb:* ''"
proof -
  from w obtain s0 fb where sp: "SplitN2 attr CHR '' '' = [s0, fb]"
    unfolding parseRtcpFb_def by (auto split: list.splits if_splits option.splits)
  from w sp obtain x pt where s0: "Split s0 CHR '':'' = [x, pt]"
    unfolding parseRtcpFb_def by (auto split: list.splits if_splits option.splits)
  from w sp s0 have pt: "pt = ''*''"
    unfolding parseRtcpFb_def by (auto split: list.splits if_splits option.splits)
  from SplitN2_pair [OF sp] have attr: "attr = s0 @ CHR '' '' # fb"
    and tw: "s0 = takeWhile (\<lambda>c. c \<noteq> CHR '' '') attr"
    by simp_all
  from p obtain r where r: "attr = ''rtcp-fb:'' @ r" by (auto simp: HasPrefix_append)
  define r0 where "r0 = takeWhile (\<lambda>c. c \<noteq> CHR '' '') r"
  have r0: "s0 = ''rtcp-fb'' @ CHR '':'' # r0"
    unfolding tw r r0_def by simp
  have "Split s0 CHR '':'' = ''rtcp-fb'' # Split r0 CHR '':''"
    unfolding r0 by (rule Split_at_first) simp
  with s0 pt have "Split r0 CHR '':'' = [''*'']" by simp
  then have "r0 = ''*''" by (auto dest: Split_singleton)
  with r0 attr have "attr = ''rtcp-fb:* '' @ fb" by simp
  then show ?thesis by (auto simp: HasPrefix_append)
qed

lemma HasPrefix_exclusive:
  "HasPrefix attr ''rtcp-fb:'' \<Longrightarrow> \<not> HasPrefix attr ''rtpmap:'' \<and> \<not> HasPrefix attr ''fmtp:''"
  "HasPrefix attr ''fmtp:'' \<Longrightarrow> \<not> HasPrefix attr ''rtpmap:''"
  by (auto simp: HasPrefix_append)

lemma scanAttribute_wildcard:
  "snd (scanAttribute attr (codecs, w)) = w @ wildcardFeedback attr"
proof (cases "HasPrefix attr ''rtcp-fb:* ''")
  case True
  then obtain fb where attr: "attr = ''rtcp-fb:* '' @ fb" by (auto simp: HasPrefix_append)
  have p: "HasPrefix attr ''rtcp-fb:''" unfolding attr by (simp add: HasPrefix_def)
  have d: "drop 10 attr = fb" unfolding attr by simp
  from HasPrefix_exclusive(1) [OF p] p show ?thesis
    by (simp add: scanAttribute_def wildcardFeedback_def True d)
       (simp add: attr parseRtcpFb_wildcard_form del: append.simps)
next
  case False
  then show ?thesis
    using parseRtcpFb_wildcard_only [of attr]
    by (auto simp: scanAttribute_def wildcardFeedback_def split: sum.splits)
qed

lemma fold_scanAttribute_wildcard:
  "snd (fold scanAttribute xs st) = snd st @ concat (map wildcardFeedback xs)"
proof (induction xs arbitrary: st)
  case Nil
  then show ?case by simp
next
  case (Cons x xs)
  obtain codecs w where st: "st = (codecs, w)" by (cases st)
  show ?case
    using Cons.IH [of "scanAttribute x st"] scanAttribute_wildcard [of x codecs w]
    by (simp add: st)
qed

lemma fold_scanAttribute_dom_mono:
  "keyed (fst st) \<Longrightarrow> i \<in> dom (fst st) \<Longrightarrow> i \<in> dom (fst (fold scanAttribute xs st))"
  using fold_scanAttribute_extends [of st i _ xs] by (auto simp: dom_def)

lemma scanAttribute_rtpmap_dom:
  assumes "keyed (fst st)" "HasPrefix a ''rtpmap:''" "parseRtpmap a = Inr codec"
  shows "PayloadType codec \<in> dom (fst (scanAttribute a st))"
  using assms by (cases st) (simp add: scanAttribute_def mergeCodecs_dom)

lemma fold_scanAttribute_rtpmap_dom:
  "keyed (fst st) \<Longrightarrow> a \<in> set xs \<Longrightarrow> HasPrefix a ''rtpmap:'' \<Longrightarrow> parseRtpmap a = Inr codec
     \<Longrightarrow> PayloadType codec \<in> dom (fst (fold scanAttribute xs st))"
proof (induction xs arbitrary: st)
  case Nil
  then show ?case by simp
next
  case (Cons x xs)
  have k: "keyed (fst (scanAttribute x st))"
    using Cons.prems(1) by (rule scanAttribute_keyed)
  show ?case
  proof (cases "a = x")
    case True
    with Cons.prems have "PayloadType codec \<in> dom (fst (scanAttribute x st))"
      by (simp add: scanAttribute_rtpmap_dom)
    with k show ?thesis by (simp add: fold_scanAttribute_dom_mono)
  next
    case False
    with Cons.prems have "a \<in> set xs" by simp
    from Cons.IH [OF k this Cons.prems(3,4)] show ?thesis by simp
  qed
qed

lemma wildcardFeedback_form: "wildcardFeedback (''rtcp-fb:* '' @ fb) = [fb]"
  by (simp add: wildcardFeedback_def HasPrefix_def)

lemma buildCodecMap_wildcard:
  assumes "fst (buildCodecMap s) k = Some c"
  shows "\<exists>c0 ys. fst (scanMedia (MediaDescriptions s) (staticCodecs, [])) k = Some c0
           \<and> c = c0\<lparr>RTCPFeedback := RTCPFeedback c0 @ ys\<rparr>
           \<and> distinct ys
           \<and> set ys = set (wildcardFeedbacks s) - set (RTCPFeedback c0)"
proof -
  let ?st = "fold scanAttribute (attributeStrings s) (staticCodecs, [])"
  have w: "snd ?st = wildcardFeedbacks s"
    by (simp add: fold_scanAttribute_wildcard wildcardFeedbacks_def)
  from assms obtain c0 where c0: "fst ?st k = Some c0"
    and c: "c = appendAllFeedback c0 (wildcardFeedbacks s)"
    by (auto simp: buildCodecMap_eq applyWildcard_def w split: option.splits)
  from appendAllFeedback_feedback [of c0 "wildcardFeedbacks s"] obtain ys where
    ys: "RTCPFeedback (appendAllFeedback c0 (wildcardFeedbacks s)) = RTCPFeedback c0 @ ys"
      "distinct ys" "set ys = set (wildcardFeedbacks s) - set (RTCPFeedback c0)"
    by blast
  have "c = c0\<lparr>RTCPFeedback := RTCPFeedback c0 @ ys\<rparr>"
    using appendAllFeedback_record [of c0 "wildcardFeedbacks s"] c ys(1) by simp
  with c0 ys(2,3) show ?thesis
    by (auto simp: scanMedia_attributeStrings)
qed

section \<open>Attributes that the scan passes over\<close>

lemma fold_scanAttribute_filter:
  "fold scanAttribute (filter matching xs) st = fold scanAttribute xs st"
  by (induction xs arbitrary: st) (simp_all add: scanAttribute_not_matching)

lemma parse_rtpmap99:
  "parseRtpmap ''rtpmap:99 h263-1998/90000'' =
     Inr (zeroCodec\<lparr>PayloadType := 99, Name := ''h263-1998'', ClockRate := 90000\<rparr>)"
  by (simp add: parseRtpmap_def ParseUint_def isDigit_def digitVal_def)

lemma parse_fmtp99:
  "parseFmtp ''fmtp:99 custom=1'' = Inr (zeroCodec\<lparr>PayloadType := 99, Fmtp := ''custom=1''\<rparr>)"
  by (simp add: parseFmtp_def SplitN2_def ParseUint_def isDigit_def digitVal_def)

lemma scan_rtpmap99:
  "scanAttribute ''rtpmap:99 h263-1998/90000'' (codecs, w) =
     (mergeCodecs (zeroCodec\<lparr>PayloadType := 99, Name := ''h263-1998'', ClockRate := 90000\<rparr>) codecs, w)"
  by (simp add: scanAttribute_def HasPrefix_def parse_rtpmap99 del: Split.simps)

lemma scan_fmtp99:
  "scanAttribute ''fmtp:99 custom=1'' (codecs, w) =
     (mergeCodecs (zeroCodec\<lparr>PayloadType := 99, Fmtp := ''custom=1''\<rparr>) codecs, w)"
  by (simp add: scanAttribute_def HasPrefix_def parse_fmtp99)

lemma merged99:
  "xs = [''rtpmap:99 h263-1998/90000'', ''fmtp:99 custom=1'']
     \<or> xs = [''fmtp:99 custom=1'', ''rtpmap:99 h263-1998/90000'']
   \<Longrightarrow> fold scanAttribute xs (staticCodecs, []) =
        (staticCodecs(99 \<mapsto> \<lparr>PayloadType = 99, Name = ''h263-1998'', ClockRate = 90000,
             EncodingParameters = [], Fmtp = ''custom=1'', RTCPFeedback = []\<rparr>), [])"
  by (auto simp: scan_rtpmap99 scan_fmtp99 mergeCodecs_def lookupCodec_def staticCodecs_def
      zeroCodec_def Let_def simp del: scanAttribute_def)


lemma scanAttribute_undecodable: "undecodable attr \<Longrightarrow> scanAttribute attr st = st"
  by (cases st) (auto simp: scanAttribute_def undecodable_def split: if_splits sum.splits)

lemma fold_scanAttribute_drop:
  "fold scanAttribute (filter (\<lambda>a. \<not> undecodable a) xs) st = fold scanAttribute xs st"
  by (induction xs arbitrary: st) (simp_all add: scanAttribute_undecodable)

lemma attributeStrings_dropUndecodable:
  "attributeStrings (dropUndecodable s) = filter (\<lambda>a. \<not> undecodable a) (attributeStrings s)"
  by (simp add: attributeStrings_def dropUndecodable_def filter_concat filter_map comp_def)

section \<open>Facts about the queries\<close>

lemma GetCodecsForPayloadTypes_fst:
  "fst (GetCodecsForPayloadTypes s pts) = Inr (lookupAll (fst (buildCodecMap s)) pts)"
  by (simp add: GetCodecsForPayloadTypes_def split: prod.splits)

lemma GetPayloadTypeForCodec_fst:
  "fst (GetPayloadTypeForCodec ks s wanted) = firstMatch wanted (fst (buildCodecMap s)) ks"
  by (simp add: GetPayloadTypeForCodec_def split: prod.splits)

lemma firstMatch_Inl: "firstMatch wanted codecs ks = Inl e \<Longrightarrow> e = ErrCodecNotFound"
  by (induction ks) (auto split: option.splits if_splits)

lemma firstMatch_miss:
  "firstMatch wanted codecs ks = Inl e \<Longrightarrow> k \<in> set ks \<Longrightarrow> codecs k = Some c
     \<Longrightarrow> \<not> codecsMatch wanted c"
  by (induction ks) (auto split: option.splits if_splits)

lemma firstMatch_Inr:
  "firstMatch wanted codecs ks = Inr k
     \<Longrightarrow> k \<in> set ks \<and> (\<exists>c. codecs k = Some c \<and> codecsMatch wanted c)"
  by (induction ks) (auto split: option.splits if_splits)

lemma firstMatch_none:
  "(\<And>k c. codecs k = Some c \<Longrightarrow> \<not> codecsMatch wanted c)
     \<Longrightarrow> firstMatch wanted codecs ks = Inl ErrCodecNotFound"
  by (induction ks) (auto split: option.splits)

lemma buildCodecMap_snd: "snd (buildCodecMap s) = s"
  by (simp add: buildCodecMap_def split: prod.splits)

lemma buildCodecMap_same_strings:
  "attributeStrings s = attributeStrings s' \<Longrightarrow> fst (buildCodecMap s) = fst (buildCodecMap s')"
  by (simp add: buildCodecMap_eq)

lemma EqualFold_toLower: "EqualFold a b \<longleftrightarrow> map toLower a = map toLower b"
  by (induction a b rule: EqualFold.induct) auto

lemma EqualFold_pcmu: "EqualFold ''pcmu'' ''PCMU''"
  by code_simp

lemma toLower_PCMU: "map toLower ''PCMU'' = ''pcmu''" "map toLower ''pcmu'' = ''pcmu''"
  by code_simp+

lemma firstMatch_head:
  "codecs k = Some c \<Longrightarrow> codecsMatch wanted c \<Longrightarrow> firstMatch wanted codecs (k # ks) = Inr k"
  by simp

section \<open>Two attributes, decoded\<close>

lemma scan_fmtp96:
  "scanAttribute ''fmtp:96 a=2; b=1'' (codecs, w) =
     (mergeCodecs (zeroCodec\<lparr>PayloadType := 96, Fmtp := ''a=2; b=1''\<rparr>) codecs, w)"
proof -
  have "parseFmtp ''fmtp:96 a=2; b=1'' = Inr (zeroCodec\<lparr>PayloadType := 96, Fmtp := ''a=2; b=1''\<rparr>)"
    by (simp add: parseFmtp_def SplitN2_def ParseUint_def isDigit_def digitVal_def)
  then show ?thesis
    by (simp add: scanAttribute_def HasPrefix_def)
qed

lemma not_equivalent_reordered_with_space: "\<not> equivalentFmtp ''b=1;a=2'' ''a=2; b=1''"
  by (simp add: equivalentFmtp_def TrimSpace_def isSpace_def)

lemma not_equivalent_empty: "\<not> equivalentFmtp ''b=1;a=2'' []"
  by (simp add: equivalentFmtp_def)

lemma equivalent_reordered: "equivalentFmtp ''b=1;a=2'' ''a=2;b=1''"
  by (simp add: equivalentFmtp_def TrimSpace_def isSpace_def)

lemma not_equivalent_three_parts: "\<not> equivalentFmtp ''b=1;a=2'' ''a=2;b=1;c=3''"
  by (simp add: equivalentFmtp_def)

lemma scan_rtcpfb96:
  "scanAttribute ''rtcp-fb:96 nack'' (codecs, w) =
     (mergeCodecs (zeroCodec\<lparr>PayloadType := 96, RTCPFeedback := [''nack'']\<rparr>) codecs, w)"
proof -
  have "parseRtcpFb ''rtcp-fb:96 nack'' =
          Inr (zeroCodec\<lparr>PayloadType := 96, RTCPFeedback := [''nack'']\<rparr>, False)"
    by (simp add: parseRtcpFb_def SplitN2_def ParseUint_def isDigit_def digitVal_def)
  then show ?thesis
    by (simp add: scanAttribute_def HasPrefix_def)
qed

lemma scan_wildcard_nack:
  "scanAttribute ''rtcp-fb:* nack'' (codecs, w) = (codecs, w @ [''nack''])"
proof -
  have "parseRtcpFb (''rtcp-fb:* '' @ ''nack'') = Inr (zeroCodec\<lparr>RTCPFeedback := [''nack'']\<rparr>, True)"
    by (rule parseRtcpFb_wildcard_form)
  then have "parseRtcpFb ''rtcp-fb:* nack'' = Inr (zeroCodec\<lparr>RTCPFeedback := [''nack'']\<rparr>, True)"
    by simp
  then show ?thesis
    by (simp add: scanAttribute_def HasPrefix_def)
qed

lemma wildcard_twice:
  "fst (GetCodecForPayloadType
          (\<lparr>MediaDescriptions = [\<lparr>Attributes = [\<lparr>Key = ''rtcp-fb'', Value = ''* nack''\<rparr>,
                                               \<lparr>Key = ''rtcp-fb'', Value = ''* nack''\<rparr>]\<rparr>]\<rparr>
            :: unit SessionDescription) 0) =
        Inr \<lparr>PayloadType = 0, Name = ''PCMU'', ClockRate = 8000, EncodingParameters = [],
             Fmtp = [], RTCPFeedback = [''nack'']\<rparr>"
proof -
  let ?s = "\<lparr>MediaDescriptions = [\<lparr>Attributes = [\<lparr>Key = ''rtcp-fb'', Value = ''* nack''\<rparr>,
                                               \<lparr>Key = ''rtcp-fb'', Value = ''* nack''\<rparr>]\<rparr>]\<rparr>
            :: unit SessionDescription"
  have as: "attributeStrings ?s = [''rtcp-fb:* nack'', ''rtcp-fb:* nack'']"
    by (simp add: attributeStrings_def String_def)
  have f: "fold scanAttribute (attributeStrings ?s) (staticCodecs, []) =
             (staticCodecs, [''nack'', ''nack''])"
    unfolding as by (simp add: scan_wildcard_nack del: scanAttribute_def)
  have m: "fst (buildCodecMap ?s) = applyWildcard [''nack'', ''nack''] staticCodecs"
    by (simp only: buildCodecMap_eq f fst_conv snd_conv)
  show ?thesis
    unfolding GetCodecForPayloadType_fst m
    by (simp add: applyWildcard_def staticCodecs_def appendRTCPFeedback_def zeroCodec_def)
qed

section \<open>Session identifiers have the top bit clear\<close>

text \<open>
  Claim C8. Whatever 64-bit value the random number generator produces,
  \<open>newSessionID\<close> returns a value below \<open>2 ^ 63\<close>, that is with bit 63 clear, and it
  returns the generator's error (or nil) as it is.
\<close>

theorem newSessionID_top_bit_clear:
  "fst (newSessionID (v, e)) < 2 ^ 63
   \<and> \<not> bit (fst (newSessionID (v, e))) 63
   \<and> snd (newSessionID (v, e)) = e"
proof -
  have eq: "fst (newSessionID (v, e)) = v AND mask 63"
    by (simp only: newSessionID_def prod.case fst_conv mask63)
  have "v AND mask 63 < 2 ^ 63"
    by (rule and_mask_less_size) (simp add: word_size)
  moreover have "\<not> bit (v AND mask 63) 63"
    by (simp add: bit_and_iff bit_mask_iff)
  ultimately show ?thesis
    using eq by (simp add: newSessionID_def)
qed

section \<open>An rtpmap without a clock rate\<close>

text \<open>
  Claim C10. An rtpmap attribute whose codec description has no \<open>/\<close> decodes without
  an error: the codec has the payload type, the whole description as its name, clock
  rate 0 and no encoding parameters. The payload type is any string that
  \<open>ParseUint\<close> accepts for 8 bits; the name has no space, since a second space makes
  the first split fail.
\<close>

theorem parseRtpmap_without_clock_rate:
  assumes pt: "ParseUint pt 8 = Some n"
    and slash: "CHR ''/'' \<notin> set name"
    and space: "CHR '' '' \<notin> set name"
  shows "parseRtpmap (''rtpmap:'' @ pt @ '' '' @ name) =
           Inr \<lparr>PayloadType = of_int n, Name = name, ClockRate = 0,
                EncodingParameters = [], Fmtp = [], RTCPFeedback = []\<rparr>"
proof -
  from pt have dig: "\<forall>c \<in> set pt. isDigit c" by (rule ParseUint_isDigit)
  have nsp: "CHR '' '' \<notin> set (''rtpmap:'' @ pt)"
    using dig isDigit_not_space by auto
  have ncol: "CHR '':'' \<notin> set pt"
    using dig isDigit_not_colon by auto
  have "Split ((''rtpmap:'' @ pt) @ CHR '' '' # name) CHR '' '' = [''rtpmap:'' @ pt, name]"
    using Split_at_first [OF nsp] Split_no_sep [OF space] by simp
  then have s1: "Split (''rtpmap:'' @ pt @ '' '' @ name) CHR '' '' = [''rtpmap:'' @ pt, name]"
    by simp
  have "Split (''rtpmap'' @ CHR '':'' # pt) CHR '':'' = [''rtpmap'', pt]"
    using Split_at_first [of "CHR '':''" "''rtpmap''" pt] Split_no_sep [OF ncol] by simp
  then have s2: "Split (''rtpmap:'' @ pt) CHR '':'' = [''rtpmap'', pt]"
    by simp
  have s3: "Split name CHR ''/'' = [name]"
    using slash by (rule Split_no_sep)
  show ?thesis
    unfolding parseRtpmap_def
    by (simp only: s1 s2 s3 pt list.case option.case Let_def) (simp add: zeroCodec_def)
qed

theorem parseRtpmap_without_clock_rate_witness:
  "ParseUint ''96'' 8 = Some 96
   \<and> CHR ''/'' \<notin> set ''opus'' \<and> CHR '' '' \<notin> set ''opus''
   \<and> parseRtpmap ''rtpmap:96 opus'' =
       Inr \<lparr>PayloadType = 96, Name = ''opus'', ClockRate = 0,
            EncodingParameters = [], Fmtp = [], RTCPFeedback = []\<rparr>"
proof -
  have pt: "ParseUint ''96'' 8 = Some 96"
    by (simp add: ParseUint_def isDigit_def digitVal_def)
  show ?thesis
    using pt parseRtpmap_without_clock_rate [OF pt, of "''opus''"] by simp
qed

section \<open>The static codecs\<close>

text \<open>
  Claim C5. For every session description the merged map holds payload type 0 with the
  name PCMU and clock rate 8000 and payload type 8 with the name PCMA and clock rate
  8000, so \<open>GetCodecForPayloadType\<close> succeeds for 0 and for 8 with these values; and
  when no attribute of the session is an rtpmap, fmtp or rtcp-fb attribute (in
  particular when there is no media description) the map is exactly the two static
  definitions.
\<close>

theorem static_codecs_always_present:
  "(\<exists>c. fst (GetCodecForPayloadType s 0) = Inr c
        \<and> PayloadType c = 0 \<and> Name c = ''PCMU'' \<and> ClockRate c = 8000)
   \<and> (\<exists>c. fst (GetCodecForPayloadType s 8) = Inr c
        \<and> PayloadType c = 8 \<and> Name c = ''PCMA'' \<and> ClockRate c = 8000)
   \<and> ((\<forall>a \<in> set (attributeStrings s). \<not> matching a) \<longrightarrow>
        fst (buildCodecMap s) = staticCodecs)"
proof -
  have s0: "staticCodecs 0 = Some (zeroCodec\<lparr>PayloadType := 0, Name := ''PCMU'', ClockRate := 8000\<rparr>)"
    by (simp add: staticCodecs_def)
  have s8: "staticCodecs 8 = Some (zeroCodec\<lparr>PayloadType := 8, Name := ''PCMA'', ClockRate := 8000\<rparr>)"
    by (simp add: staticCodecs_def)
  have a: "\<exists>c. fst (GetCodecForPayloadType s 0) = Inr c
        \<and> PayloadType c = 0 \<and> Name c = ''PCMU'' \<and> ClockRate c = 8000"
    using buildCodecMap_static [OF s0, of s] by (auto simp: GetCodecForPayloadType_fst)
  have b: "\<exists>c. fst (GetCodecForPayloadType s 8) = Inr c
        \<and> PayloadType c = 8 \<and> Name c = ''PCMA'' \<and> ClockRate c = 8000"
    using buildCodecMap_static [OF s8, of s] by (auto simp: GetCodecForPayloadType_fst)
  have c: "(\<forall>a \<in> set (attributeStrings s). \<not> matching a) \<longrightarrow>
        fst (buildCodecMap s) = staticCodecs"
    by (simp add: buildCodecMap_eq fold_scanAttribute_not_matching applyWildcard_Nil)
  from a b c show ?thesis by blast
qed


theorem static_codecs_always_present_witness:
  "attributeStrings
          (\<lparr>MediaDescriptions = [\<lparr>Attributes = [\<lparr>Key = ''sendrecv'', Value = []\<rparr>]\<rparr>]\<rparr>
            :: unit SessionDescription) = [''sendrecv'']
   \<and> \<not> matching ''sendrecv''
   \<and> fst (buildCodecMap
          (\<lparr>MediaDescriptions = [\<lparr>Attributes = [\<lparr>Key = ''sendrecv'', Value = []\<rparr>]\<rparr>]\<rparr>
            :: unit SessionDescription)) = staticCodecs
   \<and> (\<exists>c. fst (GetCodecForPayloadType
          (\<lparr>MediaDescriptions = [\<lparr>Attributes = [\<lparr>Key = ''sendrecv'', Value = []\<rparr>]\<rparr>]\<rparr>
            :: unit SessionDescription) 0) = Inr c
        \<and> PayloadType c = 0 \<and> Name c = ''PCMU'' \<and> ClockRate c = 8000)"
proof -
  let ?s = "\<lparr>MediaDescriptions = [\<lparr>Attributes = [\<lparr>Key = ''sendrecv'', Value = []\<rparr>]\<rparr>]\<rparr>
            :: unit SessionDescription"
  have as: "attributeStrings ?s = [''sendrecv'']"
    by (simp add: attributeStrings_def String_def)
  have nm: "\<not> matching ''sendrecv''"
    by (simp add: matching_def HasPrefix_def)
  from static_codecs_always_present [of ?s] as nm show ?thesis
    by simp
qed

section \<open>Wildcard feedback\<close>

text \<open>
  Claim C3. After the scan, every codec of the merged map is the codec that the scan
  left under that key with the wildcard feedback appended: the strings added are
  pairwise different, none of them was in the list before, and together with the list
  they cover every wildcard feedback of the session; so the feedback of every attribute
  \<open>rtcp-fb:* <feedback>\<close> is in the list of every codec. In particular, when the
  session has the attribute \<open>rtcp-fb:* nack\<close> and an rtpmap attribute that decodes to
  payload type 97, \<open>GetCodecForPayloadType\<close> for 97 returns a codec whose feedback
  list contains \<open>nack\<close>.
\<close>

theorem wildcard_feedback_reaches_every_codec:
  "(\<forall>k c. fst (buildCodecMap s) k = Some c \<longrightarrow>
      (\<exists>c0 ys. fst (scanMedia (MediaDescriptions s) (staticCodecs, [])) k = Some c0
         \<and> c = c0\<lparr>RTCPFeedback := RTCPFeedback c0 @ ys\<rparr>
         \<and> distinct ys
         \<and> set ys = set (wildcardFeedbacks s) - set (RTCPFeedback c0))
      \<and> (\<forall>fb. ''rtcp-fb:* '' @ fb \<in> set (attributeStrings s) \<longrightarrow> fb \<in> set (RTCPFeedback c)))
   \<and> (''rtcp-fb:* nack'' \<in> set (attributeStrings s)
        \<and> (\<exists>a codec. a \<in> set (attributeStrings s) \<and> HasPrefix a ''rtpmap:''
               \<and> parseRtpmap a = Inr codec \<and> PayloadType codec = 97) \<longrightarrow>
      (\<exists>c. fst (GetCodecForPayloadType s 97) = Inr c \<and> ''nack'' \<in> set (RTCPFeedback c)))"
proof -
  have every: "fb \<in> set (RTCPFeedback c)"
    if c: "fst (buildCodecMap s) k = Some c" and fb: "''rtcp-fb:* '' @ fb \<in> set (attributeStrings s)"
    for k c fb
  proof -
    from fb have "fb \<in> set (wildcardFeedbacks s)"
      unfolding wildcardFeedbacks_def using wildcardFeedback_form [of fb]
      by (auto simp del: append.simps intro!: bexI [of _ "''rtcp-fb:* '' @ fb"])
    with buildCodecMap_wildcard [OF c] show ?thesis by auto
  qed
  have ex: "\<exists>c. fst (GetCodecForPayloadType s 97) = Inr c \<and> ''nack'' \<in> set (RTCPFeedback c)"
    if w: "''rtcp-fb:* nack'' \<in> set (attributeStrings s)"
      and a: "a \<in> set (attributeStrings s)" "HasPrefix a ''rtpmap:''"
        "parseRtpmap a = Inr codec" "PayloadType codec = 97"
    for a codec
  proof -
    have k: "keyed (fst (staticCodecs, ([] :: string list)))"
      by (simp add: keyed_staticCodecs)
    from fold_scanAttribute_rtpmap_dom [OF k a(1,2,3)] a(4)
    obtain c0 where "fst (fold scanAttribute (attributeStrings s) (staticCodecs, [])) 97 = Some c0"
      by auto
    then obtain c where c: "fst (buildCodecMap s) 97 = Some c"
      by (simp add: buildCodecMap_eq applyWildcard_def)
    from w have "''rtcp-fb:* '' @ ''nack'' \<in> set (attributeStrings s)" by simp
    from every [OF c this] c show ?thesis
      by (simp add: GetCodecForPayloadType_fst)
  qed
  show ?thesis
    using buildCodecMap_wildcard every ex by blast
qed


theorem wildcard_feedback_reaches_every_codec_witness:
  "''rtcp-fb:* nack'' \<in> set (attributeStrings
        (\<lparr>MediaDescriptions = [\<lparr>Attributes = [\<lparr>Key = ''rtpmap'', Value = ''97 VP8/90000''\<rparr>,
                                             \<lparr>Key = ''rtcp-fb'', Value = ''* nack''\<rparr>]\<rparr>]\<rparr>
          :: unit SessionDescription))
   \<and> HasPrefix ''rtpmap:97 VP8/90000'' ''rtpmap:''
   \<and> parseRtpmap ''rtpmap:97 VP8/90000'' =
        Inr \<lparr>PayloadType = 97, Name = ''VP8'', ClockRate = 90000,
            EncodingParameters = [], Fmtp = [], RTCPFeedback = []\<rparr>
   \<and> (\<exists>c. fst (GetCodecForPayloadType
        (\<lparr>MediaDescriptions = [\<lparr>Attributes = [\<lparr>Key = ''rtpmap'', Value = ''97 VP8/90000''\<rparr>,
                                             \<lparr>Key = ''rtcp-fb'', Value = ''* nack''\<rparr>]\<rparr>]\<rparr>
          :: unit SessionDescription) 97) = Inr c
        \<and> ''nack'' \<in> set (RTCPFeedback c))"
proof -
  let ?s = "\<lparr>MediaDescriptions = [\<lparr>Attributes = [\<lparr>Key = ''rtpmap'', Value = ''97 VP8/90000''\<rparr>,
                                             \<lparr>Key = ''rtcp-fb'', Value = ''* nack''\<rparr>]\<rparr>]\<rparr>
          :: unit SessionDescription"
  have as: "attributeStrings ?s = [''rtpmap:97 VP8/90000'', ''rtcp-fb:* nack'']"
    by (simp add: attributeStrings_def String_def)
  have hp: "HasPrefix ''rtpmap:97 VP8/90000'' ''rtpmap:''"
    by (simp add: HasPrefix_def)
  have p: "parseRtpmap ''rtpmap:97 VP8/90000'' =
        Inr \<lparr>PayloadType = 97, Name = ''VP8'', ClockRate = 90000,
            EncodingParameters = [], Fmtp = [], RTCPFeedback = []\<rparr>"
    by (simp add: parseRtpmap_def ParseUint_def isDigit_def digitVal_def zeroCodec_def)
  have ex: "\<exists>a codec. a \<in> set (attributeStrings ?s) \<and> HasPrefix a ''rtpmap:''
               \<and> parseRtpmap a = Inr codec \<and> PayloadType codec = 97"
  proof (intro exI conjI)
    show "''rtpmap:97 VP8/90000'' \<in> set (attributeStrings ?s)" unfolding as by simp
    show "HasPrefix ''rtpmap:97 VP8/90000'' ''rtpmap:''" by (rule hp)
    show "parseRtpmap ''rtpmap:97 VP8/90000'' =
        Inr \<lparr>PayloadType = 97, Name = ''VP8'', ClockRate = 90000,
            EncodingParameters = [], Fmtp = [], RTCPFeedback = []\<rparr>" by (rule p)
    show "PayloadType \<lparr>PayloadType = 97, Name = ''VP8'', ClockRate = 90000,
            EncodingParameters = [], Fmtp = [], RTCPFeedback = []\<rparr> = 97" by simp
  qed
  have w: "''rtcp-fb:* nack'' \<in> set (attributeStrings ?s)"
    unfolding as by simp
  from wildcard_feedback_reaches_every_codec [of ?s] w ex hp p
  show ?thesis by blast
qed

section \<open>Merging keeps the first value\<close>

text \<open>
  Claim C4. Merging a decoded fragment stores a codec whose name, clock rate, encoding
  parameters and fmtp are the fragment's where the accumulator (the codec stored under
  the fragment's payload type, or the zero codec) has the zero or empty value, and the
  accumulator's otherwise; in the maps that the scan builds it is stored under the
  fragment's payload type. In particular, when the rtpmap, fmtp and rtcp-fb attributes
  of a session are \<open>rtpmap:99 h263-1998/90000\<close> and \<open>fmtp:99 custom=1\<close>, in either
  order, \<open>GetCodecForPayloadType\<close> for 99 returns one codec with the name h263-1998,
  the clock rate 90000 and the fmtp \<open>custom=1\<close>.
\<close>

theorem mergeCodecs_first_value_wins:
  "(\<exists>merged. mergeCodecs codec codecs = codecs(PayloadType merged \<mapsto> merged)
      \<and> Name merged =
           (if Name (lookupCodec codecs (PayloadType codec)) = [] then Name codec
            else Name (lookupCodec codecs (PayloadType codec)))
      \<and> ClockRate merged =
           (if ClockRate (lookupCodec codecs (PayloadType codec)) = 0 then ClockRate codec
            else ClockRate (lookupCodec codecs (PayloadType codec)))
      \<and> EncodingParameters merged =
           (if EncodingParameters (lookupCodec codecs (PayloadType codec)) = []
            then EncodingParameters codec
            else EncodingParameters (lookupCodec codecs (PayloadType codec)))
      \<and> Fmtp merged =
           (if Fmtp (lookupCodec codecs (PayloadType codec)) = [] then Fmtp codec
            else Fmtp (lookupCodec codecs (PayloadType codec)))
      \<and> (keyed codecs \<longrightarrow> PayloadType merged = PayloadType codec))
   \<and> (filter matching (attributeStrings s) = [''rtpmap:99 h263-1998/90000'', ''fmtp:99 custom=1'']
        \<or> filter matching (attributeStrings s) = [''fmtp:99 custom=1'', ''rtpmap:99 h263-1998/90000'']
      \<longrightarrow> fst (GetCodecForPayloadType s 99) =
            Inr \<lparr>PayloadType = 99, Name = ''h263-1998'', ClockRate = 90000,
                 EncodingParameters = [], Fmtp = ''custom=1'', RTCPFeedback = []\<rparr>)"
proof -
  let ?saved = "lookupCodec codecs (PayloadType codec)"
  define merged where "merged =
    \<lparr>PayloadType = (if PayloadType ?saved = 0 then PayloadType codec else PayloadType ?saved),
     Name = (if Name ?saved = [] then Name codec else Name ?saved),
     ClockRate = (if ClockRate ?saved = 0 then ClockRate codec else ClockRate ?saved),
     EncodingParameters =
       (if EncodingParameters ?saved = [] then EncodingParameters codec
        else EncodingParameters ?saved),
     Fmtp = (if Fmtp ?saved = [] then Fmtp codec else Fmtp ?saved),
     RTCPFeedback = RTCPFeedback ?saved @ RTCPFeedback codec\<rparr>"
  have m: "mergeCodecs codec codecs = codecs(PayloadType merged \<mapsto> merged)"
    by (auto simp: mergeCodecs_def Let_def merged_def)
  have k: "keyed codecs \<longrightarrow> PayloadType merged = PayloadType codec"
    using keyed_lookup [of codecs "PayloadType codec"] by (auto simp: merged_def)
  have rule: "\<exists>merged. mergeCodecs codec codecs = codecs(PayloadType merged \<mapsto> merged)
      \<and> Name merged = (if Name ?saved = [] then Name codec else Name ?saved)
      \<and> ClockRate merged = (if ClockRate ?saved = 0 then ClockRate codec else ClockRate ?saved)
      \<and> EncodingParameters merged =
           (if EncodingParameters ?saved = [] then EncodingParameters codec
            else EncodingParameters ?saved)
      \<and> Fmtp merged = (if Fmtp ?saved = [] then Fmtp codec else Fmtp ?saved)
      \<and> (keyed codecs \<longrightarrow> PayloadType merged = PayloadType codec)"
    using m k by (intro exI [of _ merged]) (simp add: merged_def)
  have example: "fst (GetCodecForPayloadType s 99) =
            Inr \<lparr>PayloadType = 99, Name = ''h263-1998'', ClockRate = 90000,
                 EncodingParameters = [], Fmtp = ''custom=1'', RTCPFeedback = []\<rparr>"
    if "filter matching (attributeStrings s) = [''rtpmap:99 h263-1998/90000'', ''fmtp:99 custom=1'']
        \<or> filter matching (attributeStrings s) = [''fmtp:99 custom=1'', ''rtpmap:99 h263-1998/90000'']"
  proof -
    have "fold scanAttribute (attributeStrings s) (staticCodecs, []) =
        (staticCodecs(99 \<mapsto> \<lparr>PayloadType = 99, Name = ''h263-1998'', ClockRate = 90000,
             EncodingParameters = [], Fmtp = ''custom=1'', RTCPFeedback = []\<rparr>), [])"
      using merged99 [OF that] by (simp only: fold_scanAttribute_filter)
    then show ?thesis
      by (simp add: GetCodecForPayloadType_fst buildCodecMap_eq applyWildcard_Nil)
  qed
  from rule example show ?thesis by blast
qed

theorem mergeCodecs_first_value_wins_witness:
  "keyed staticCodecs
   \<and> filter matching (attributeStrings
        (\<lparr>MediaDescriptions = [\<lparr>Attributes = [\<lparr>Key = ''rtpmap'', Value = ''99 h263-1998/90000''\<rparr>,
                                             \<lparr>Key = ''mid'', Value = ''0''\<rparr>,
                                             \<lparr>Key = ''fmtp'', Value = ''99 custom=1''\<rparr>]\<rparr>]\<rparr>
          :: unit SessionDescription))
       = [''rtpmap:99 h263-1998/90000'', ''fmtp:99 custom=1'']
   \<and> fst (GetCodecForPayloadType
        (\<lparr>MediaDescriptions = [\<lparr>Attributes = [\<lparr>Key = ''rtpmap'', Value = ''99 h263-1998/90000''\<rparr>,
                                             \<lparr>Key = ''mid'', Value = ''0''\<rparr>,
                                             \<lparr>Key = ''fmtp'', Value = ''99 custom=1''\<rparr>]\<rparr>]\<rparr>
          :: unit SessionDescription) 99) =
            Inr \<lparr>PayloadType = 99, Name = ''h263-1998'', ClockRate = 90000,
                 EncodingParameters = [], Fmtp = ''custom=1'', RTCPFeedback = []\<rparr>
   \<and> (\<exists>merged. mergeCodecs (zeroCodec\<lparr>Name := ''G711'', ClockRate := 16000, Fmtp := ''x=1''\<rparr>)
                   staticCodecs = staticCodecs(PayloadType merged \<mapsto> merged)
         \<and> Name merged = ''PCMU'' \<and> ClockRate merged = 8000
         \<and> Fmtp merged = ''x=1'' \<and> PayloadType merged = 0)"
proof -
  let ?s = "\<lparr>MediaDescriptions = [\<lparr>Attributes = [\<lparr>Key = ''rtpmap'', Value = ''99 h263-1998/90000''\<rparr>,
                                             \<lparr>Key = ''mid'', Value = ''0''\<rparr>,
                                             \<lparr>Key = ''fmtp'', Value = ''99 custom=1''\<rparr>]\<rparr>]\<rparr>
          :: unit SessionDescription"
  let ?c = "zeroCodec\<lparr>Name := ''G711'', ClockRate := 16000, Fmtp := ''x=1''\<rparr>"
  have f: "filter matching (attributeStrings ?s) = [''rtpmap:99 h263-1998/90000'', ''fmtp:99 custom=1'']"
    by (simp add: attributeStrings_def String_def matching_def HasPrefix_def)
  have l: "lookupCodec staticCodecs (PayloadType ?c) =
             zeroCodec\<lparr>PayloadType := 0, Name := ''PCMU'', ClockRate := 8000\<rparr>"
    by (simp add: lookupCodec_def staticCodecs_def zeroCodec_def)
  from mergeCodecs_first_value_wins [of ?c staticCodecs ?s] f keyed_staticCodecs
  show ?thesis
    unfolding l by (auto simp: zeroCodec_def)
qed

section \<open>Undecodable attributes are skipped\<close>

text \<open>
  Claim C7. An rtpmap, fmtp or rtcp-fb attribute that fails to decode leaves the scan
  as it was: the merged map of a session is the map of the session without its
  undecodable attributes. The queries return no decoding error:
  \<open>GetCodecForPayloadType\<close> fails only with payload-type-not-found, and exactly when
  the map has no codec for the payload type; \<open>GetCodecsForPayloadTypes\<close> never fails;
  \<open>GetPayloadTypeForCodec\<close> fails only with codec-not-found, and then no codec that
  it visited matches.
\<close>

theorem undecodable_attributes_are_skipped:
  "fst (buildCodecMap (dropUndecodable s)) = fst (buildCodecMap s)
   \<and> fst (GetCodecForPayloadType s pt) =
       (case fst (buildCodecMap s) pt of
          Some c \<Rightarrow> Inr c
        | None \<Rightarrow> Inl ErrPayloadTypeNotFound)
   \<and> (\<exists>cs. fst (GetCodecsForPayloadTypes s pts) = Inr cs)
   \<and> (\<forall>e. fst (GetPayloadTypeForCodec ks s wanted) = Inl e \<longrightarrow>
        e = ErrCodecNotFound
        \<and> (\<forall>k c. k \<in> set ks \<and> fst (buildCodecMap s) k = Some c \<longrightarrow> \<not> codecsMatch wanted c))"
proof -
  have a: "fst (buildCodecMap (dropUndecodable s)) = fst (buildCodecMap s)"
    by (simp add: buildCodecMap_eq attributeStrings_dropUndecodable fold_scanAttribute_drop)
  have d: "\<forall>e. fst (GetPayloadTypeForCodec ks s wanted) = Inl e \<longrightarrow>
        e = ErrCodecNotFound
        \<and> (\<forall>k c. k \<in> set ks \<and> fst (buildCodecMap s) k = Some c \<longrightarrow> \<not> codecsMatch wanted c)"
    unfolding GetPayloadTypeForCodec_fst
    using firstMatch_Inl firstMatch_miss by blast
  from a d show ?thesis
    by (simp add: GetCodecForPayloadType_fst GetCodecsForPayloadTypes_fst)
qed

theorem undecodable_attributes_are_skipped_witness:
  "undecodable ''rtpmap:1x VP8/90000''
   \<and> dropUndecodable
        (\<lparr>MediaDescriptions = [\<lparr>Attributes = [\<lparr>Key = ''rtpmap'', Value = ''1x VP8/90000''\<rparr>]\<rparr>]\<rparr>
          :: unit SessionDescription) = \<lparr>MediaDescriptions = [\<lparr>Attributes = []\<rparr>]\<rparr>
   \<and> fst (buildCodecMap
        (\<lparr>MediaDescriptions = [\<lparr>Attributes = [\<lparr>Key = ''rtpmap'', Value = ''1x VP8/90000''\<rparr>]\<rparr>]\<rparr>
          :: unit SessionDescription)) = staticCodecs
   \<and> fst (GetPayloadTypeForCodec [0, 8]
        (\<lparr>MediaDescriptions = [\<lparr>Attributes = [\<lparr>Key = ''rtpmap'', Value = ''1x VP8/90000''\<rparr>]\<rparr>]\<rparr>
          :: unit SessionDescription) (zeroCodec\<lparr>Name := ''VP8''\<rparr>)) = Inl ErrCodecNotFound
   \<and> \<not> codecsMatch (zeroCodec\<lparr>Name := ''VP8''\<rparr>)
         (zeroCodec\<lparr>PayloadType := 0, Name := ''PCMU'', ClockRate := 8000\<rparr>)"
proof -
  let ?s = "\<lparr>MediaDescriptions = [\<lparr>Attributes = [\<lparr>Key = ''rtpmap'', Value = ''1x VP8/90000''\<rparr>]\<rparr>]\<rparr>
          :: unit SessionDescription"
  let ?e = "\<lparr>MediaDescriptions = [\<lparr>Attributes = []\<rparr>]\<rparr> :: unit SessionDescription"
  have u: "undecodable ''rtpmap:1x VP8/90000''"
    by (simp add: undecodable_def HasPrefix_def parseRtpmap_def ParseUint_def isDigit_def digitVal_def)
  have dr: "dropUndecodable ?s = ?e"
    using u by (simp add: dropUndecodable_def String_def)
  have e: "fst (buildCodecMap ?e) = staticCodecs"
    by (simp add: buildCodecMap_def applyWildcard_Nil)
  have m: "fst (buildCodecMap ?s) = staticCodecs"
    using undecodable_attributes_are_skipped [of ?s] dr e by simp
  have g: "fst (GetPayloadTypeForCodec [0, 8] ?s (zeroCodec\<lparr>Name := ''VP8''\<rparr>)) = Inl ErrCodecNotFound"
    by (simp add: GetPayloadTypeForCodec_fst m staticCodecs_def codecsMatch_def zeroCodec_def toLower_def)
  have s0: "fst (buildCodecMap ?s) 0 = Some (zeroCodec\<lparr>PayloadType := 0, Name := ''PCMU'', ClockRate := 8000\<rparr>)"
    by (simp add: m staticCodecs_def)
  from undecodable_attributes_are_skipped [of ?s _ _ "[0, 8]" "zeroCodec\<lparr>Name := ''VP8''\<rparr>"] g s0
  have "\<not> codecsMatch (zeroCodec\<lparr>Name := ''VP8''\<rparr>)
         (zeroCodec\<lparr>PayloadType := 0, Name := ''PCMU'', ClockRate := 8000\<rparr>)"
    by auto
  with u dr m g show ?thesis by simp
qed

section \<open>The queries do not change the session\<close>

text \<open>
  Claim C9. \<open>buildCodecMap\<close> and the three queries leave the session description they
  are called on as it was, whatever its other fields hold, so a query after another
  query sees the same session; and they read nothing of it but the attribute strings of
  its media descriptions, in order: two sessions with the same attribute strings give
  the same map and the same answers.
\<close>

theorem queries_leave_the_session_unchanged:
  fixes s :: "('m, 's) SessionDescription_scheme"
    and s' :: "('n, 't) SessionDescription_scheme"
  shows
  "snd (buildCodecMap s) = s
   \<and> snd (GetCodecForPayloadType s pt) = s
   \<and> snd (GetCodecsForPayloadTypes s pts) = s
   \<and> snd (GetPayloadTypeForCodec ks s wanted) = s
   \<and> fst (GetCodecForPayloadType (snd (GetPayloadTypeForCodec ks s wanted)) pt) =
       fst (GetCodecForPayloadType s pt)
   \<and> (attributeStrings s = attributeStrings s' \<longrightarrow>
        fst (buildCodecMap s) = fst (buildCodecMap s')
        \<and> fst (GetCodecForPayloadType s pt) = fst (GetCodecForPayloadType s' pt)
        \<and> fst (GetCodecsForPayloadTypes s pts) = fst (GetCodecsForPayloadTypes s' pts)
        \<and> fst (GetPayloadTypeForCodec ks s wanted) = fst (GetPayloadTypeForCodec ks s' wanted))"
proof -
  have b: "snd (buildCodecMap s) = s" by (rule buildCodecMap_snd)
  have g1: "snd (GetCodecForPayloadType s pt) = s"
    using b by (auto simp: GetCodecForPayloadType_def split: prod.splits option.splits)
  have g2: "snd (GetCodecsForPayloadTypes s pts) = s"
    using b by (auto simp: GetCodecsForPayloadTypes_def split: prod.splits)
  have g3: "snd (GetPayloadTypeForCodec ks s wanted) = s"
    using b by (auto simp: GetPayloadTypeForCodec_def split: prod.splits)
  have r: "attributeStrings s = attributeStrings s' \<longrightarrow>
        fst (buildCodecMap s) = fst (buildCodecMap s')
        \<and> fst (GetCodecForPayloadType s pt) = fst (GetCodecForPayloadType s' pt)
        \<and> fst (GetCodecsForPayloadTypes s pts) = fst (GetCodecsForPayloadTypes s' pts)
        \<and> fst (GetPayloadTypeForCodec ks s wanted) = fst (GetPayloadTypeForCodec ks s' wanted)"
  proof
    assume "attributeStrings s = attributeStrings s'"
    then have "fst (buildCodecMap s) = fst (buildCodecMap s')"
      by (rule buildCodecMap_same_strings)
    then show "fst (buildCodecMap s) = fst (buildCodecMap s')
        \<and> fst (GetCodecForPayloadType s pt) = fst (GetCodecForPayloadType s' pt)
        \<and> fst (GetCodecsForPayloadTypes s pts) = fst (GetCodecsForPayloadTypes s' pts)
        \<and> fst (GetPayloadTypeForCodec ks s wanted) = fst (GetPayloadTypeForCodec ks s' wanted)"
      by (simp add: GetCodecForPayloadType_fst GetCodecsForPayloadTypes_fst
          GetPayloadTypeForCodec_fst)
  qed
  from g3 have g4: "fst (GetCodecForPayloadType (snd (GetPayloadTypeForCodec ks s wanted)) pt) =
       fst (GetCodecForPayloadType s pt)" by simp
  from b g1 g2 g3 g4 r show ?thesis by (intro conjI)
qed

theorem queries_leave_the_session_unchanged_witness:
  "attributeStrings
      (\<lparr>MediaDescriptions = [\<lparr>Attributes = [\<lparr>Key = ''rtpmap'', Value = ''96 opus/48000/2''\<rparr>,
                                           \<lparr>Key = ''rtcp-fb'', Value = ''96 nack''\<rparr>]\<rparr>]\<rparr>
        :: unit SessionDescription)
    = attributeStrings
      (\<lparr>MediaDescriptions = [\<lparr>Attributes = [\<lparr>Key = ''rtpmap:96 opus/48000/2'', Value = []\<rparr>]\<rparr>,
                            \<lparr>Attributes = [\<lparr>Key = ''rtcp-fb'', Value = ''96 nack''\<rparr>]\<rparr>]\<rparr>
        :: unit SessionDescription)
   \<and> fst (GetCodecForPayloadType
      (\<lparr>MediaDescriptions = [\<lparr>Attributes = [\<lparr>Key = ''rtpmap'', Value = ''96 opus/48000/2''\<rparr>,
                                           \<lparr>Key = ''rtcp-fb'', Value = ''96 nack''\<rparr>]\<rparr>]\<rparr>
        :: unit SessionDescription) 96)
    = fst (GetCodecForPayloadType
      (\<lparr>MediaDescriptions = [\<lparr>Attributes = [\<lparr>Key = ''rtpmap:96 opus/48000/2'', Value = []\<rparr>]\<rparr>,
                            \<lparr>Attributes = [\<lparr>Key = ''rtcp-fb'', Value = ''96 nack''\<rparr>]\<rparr>]\<rparr>
        :: unit SessionDescription) 96)
   \<and> snd (GetCodecForPayloadType
      (\<lparr>MediaDescriptions = [\<lparr>Attributes = [\<lparr>Key = ''rtpmap'', Value = ''96 opus/48000/2''\<rparr>,
                                           \<lparr>Key = ''rtcp-fb'', Value = ''96 nack''\<rparr>]\<rparr>]\<rparr>
        :: unit SessionDescription) 96)
    = \<lparr>MediaDescriptions = [\<lparr>Attributes = [\<lparr>Key = ''rtpmap'', Value = ''96 opus/48000/2''\<rparr>,
                                           \<lparr>Key = ''rtcp-fb'', Value = ''96 nack''\<rparr>]\<rparr>]\<rparr>"
proof -
  let ?s = "\<lparr>MediaDescriptions = [\<lparr>Attributes = [\<lparr>Key = ''rtpmap'', Value = ''96 opus/48000/2''\<rparr>,
                                           \<lparr>Key = ''rtcp-fb'', Value = ''96 nack''\<rparr>]\<rparr>]\<rparr>
        :: unit SessionDescription"
  let ?t = "\<lparr>MediaDescriptions = [\<lparr>Attributes = [\<lparr>Key = ''rtpmap:96 opus/48000/2'', Value = []\<rparr>]\<rparr>,
                            \<lparr>Attributes = [\<lparr>Key = ''rtcp-fb'', Value = ''96 nack''\<rparr>]\<rparr>]\<rparr>
        :: unit SessionDescription"
  have e: "attributeStrings ?s = attributeStrings ?t"
    by (simp add: attributeStrings_def String_def)
  from queries_leave_the_session_unchanged [of ?s 96 "[]" "[]" zeroCodec ?t] e show ?thesis
    by blast
qed

section \<open>The matching predicate\<close>

text \<open>
  Claim C6. \<open>codecsMatch\<close> holds exactly when each of the wanted name, clock rate,
  encoding parameters and fmtp is zero or empty, or agrees with the candidate's (the
  name up to the case of its letters, the fmtp by \<open>equivalentFmtp\<close>); the payload
  type and the feedback list play no part. A wanted codec with the four fields zero
  matches every candidate, and the wanted name \<open>pcmu\<close> matches the candidate name
  \<open>PCMU\<close>; on ASCII names the comparison is equality after lowering the letters A to
  Z. \<open>GetPayloadTypeForCodec\<close> returns a payload type only of a codec that
  matches, and for a wanted codec with the four fields zero it returns the first key
  that the range visits.
\<close>

theorem codecsMatch_zero_fields_are_wildcards:
  "(codecsMatch wanted got \<longleftrightarrow>
      (Name wanted = [] \<or> EqualFold (Name wanted) (Name got))
      \<and> (ClockRate wanted = 0 \<or> ClockRate wanted = ClockRate got)
      \<and> (EncodingParameters wanted = [] \<or> EncodingParameters wanted = EncodingParameters got)
      \<and> (Fmtp wanted = [] \<or> equivalentFmtp (Fmtp wanted) (Fmtp got)))
   \<and> (Name wanted = [] \<and> ClockRate wanted = 0 \<and> EncodingParameters wanted = []
        \<and> Fmtp wanted = [] \<longrightarrow> codecsMatch wanted got)
   \<and> ((\<forall>c \<in> set a \<union> set b. (of_char c :: int) < 128) \<longrightarrow>
        (EqualFold a b \<longleftrightarrow> map toLower a = map toLower b))
   \<and> (Name got = ''PCMU'' \<longrightarrow> codecsMatch (zeroCodec\<lparr>Name := ''pcmu''\<rparr>) got)
   \<and> (\<forall>k. fst (GetPayloadTypeForCodec ks s wanted) = Inr k \<longrightarrow>
         (\<exists>c. fst (buildCodecMap s) k = Some c \<and> codecsMatch wanted c))
   \<and> (rangeOrder (fst (buildCodecMap s)) ks
        \<and> Name wanted = [] \<and> ClockRate wanted = 0 \<and> EncodingParameters wanted = []
        \<and> Fmtp wanted = [] \<longrightarrow>
         (\<exists>k ks'. ks = k # ks' \<and> fst (GetPayloadTypeForCodec ks s wanted) = Inr k))"
proof -
  have char: "codecsMatch wanted got \<longleftrightarrow>
      (Name wanted = [] \<or> EqualFold (Name wanted) (Name got))
      \<and> (ClockRate wanted = 0 \<or> ClockRate wanted = ClockRate got)
      \<and> (EncodingParameters wanted = [] \<or> EncodingParameters wanted = EncodingParameters got)
      \<and> (Fmtp wanted = [] \<or> equivalentFmtp (Fmtp wanted) (Fmtp got))"
    by (auto simp: codecsMatch_def)
  have zero: "Name wanted = [] \<and> ClockRate wanted = 0 \<and> EncodingParameters wanted = []
        \<and> Fmtp wanted = [] \<longrightarrow> codecsMatch wanted got" for got
    by (simp add: codecsMatch_def)
  have pcmu: "Name got = ''PCMU'' \<longrightarrow> codecsMatch (zeroCodec\<lparr>Name := ''pcmu''\<rparr>) got"
    using EqualFold_pcmu by (simp add: codecsMatch_def zeroCodec_def del: EqualFold.simps)
  have found: "\<forall>k. fst (GetPayloadTypeForCodec ks s wanted) = Inr k \<longrightarrow>
         (\<exists>c. fst (buildCodecMap s) k = Some c \<and> codecsMatch wanted c)"
    unfolding GetPayloadTypeForCodec_fst using firstMatch_Inr by blast
  have first: "rangeOrder (fst (buildCodecMap s)) ks
        \<and> Name wanted = [] \<and> ClockRate wanted = 0 \<and> EncodingParameters wanted = []
        \<and> Fmtp wanted = [] \<longrightarrow>
         (\<exists>k ks'. ks = k # ks' \<and> fst (GetPayloadTypeForCodec ks s wanted) = Inr k)"
  proof (intro impI, elim conjE)
    assume r: "rangeOrder (fst (buildCodecMap s)) ks"
      and z: "Name wanted = []" "ClockRate wanted = 0" "EncodingParameters wanted = []"
        "Fmtp wanted = []"
    have "staticCodecs 0 \<noteq> None" by (simp add: staticCodecs_def)
    then obtain c0 where "staticCodecs 0 = Some c0" by blast
    from buildCodecMap_static [OF this, of s] have "0 \<in> dom (fst (buildCodecMap s))" by auto
    with r have "ks \<noteq> []" by (auto simp: rangeOrder_def)
    then obtain k ks' where ks: "ks = k # ks'" by (cases ks) auto
    with r have "k \<in> dom (fst (buildCodecMap s))" by (auto simp: rangeOrder_def)
    then obtain c where c: "fst (buildCodecMap s) k = Some c" by blast
    from z zero [of c] have "codecsMatch wanted c" by simp
    from firstMatch_head [of "fst (buildCodecMap s)" k c wanted ks'] c this ks
    show "\<exists>k ks'. ks = k # ks' \<and> fst (GetPayloadTypeForCodec ks s wanted) = Inr k"
      by (simp add: GetPayloadTypeForCodec_fst)
  qed
  have fold: "(\<forall>c \<in> set a \<union> set b. (of_char c :: int) < 128) \<longrightarrow>
        (EqualFold a b \<longleftrightarrow> map toLower a = map toLower b)"
    using EqualFold_toLower [of a b] by blast
  from char zero [of got] fold pcmu found first show ?thesis
    by (intro conjI)
qed

theorem codecsMatch_zero_fields_are_wildcards_witness:
  "Name (zeroCodec\<lparr>PayloadType := 0, Name := ''PCMU'', ClockRate := 8000\<rparr>) = ''PCMU''
   \<and> codecsMatch (zeroCodec\<lparr>Name := ''pcmu''\<rparr>)
        (zeroCodec\<lparr>PayloadType := 0, Name := ''PCMU'', ClockRate := 8000\<rparr>)
   \<and> map toLower ''pcmu'' = map toLower ''PCMU''
   \<and> EqualFold ''pcmu'' ''PCMU''
   \<and> Name zeroCodec = [] \<and> ClockRate zeroCodec = 0 \<and> EncodingParameters zeroCodec = []
   \<and> Fmtp zeroCodec = []
   \<and> codecsMatch zeroCodec (zeroCodec\<lparr>PayloadType := 0, Name := ''PCMU'', ClockRate := 8000\<rparr>)
   \<and> rangeOrder (fst (buildCodecMap (\<lparr>MediaDescriptions = []\<rparr> :: unit SessionDescription))) [8, 0]
   \<and> fst (GetPayloadTypeForCodec [8, 0] (\<lparr>MediaDescriptions = []\<rparr> :: unit SessionDescription)
          zeroCodec) = Inr 8"
proof -
  let ?s = "\<lparr>MediaDescriptions = []\<rparr> :: unit SessionDescription"
  let ?g = "zeroCodec\<lparr>PayloadType := 0, Name := ''PCMU'', ClockRate := 8000\<rparr>"
  have n: "Name ?g = ''PCMU''" by (simp add: zeroCodec_def)
  have z: "Name zeroCodec = [] \<and> ClockRate zeroCodec = 0 \<and> EncodingParameters zeroCodec = []
            \<and> Fmtp zeroCodec = []"
    by (simp add: zeroCodec_def)
  have m: "fst (buildCodecMap ?s) = staticCodecs"
    by (simp add: buildCodecMap_def applyWildcard_Nil)
  have r: "rangeOrder (fst (buildCodecMap ?s)) [8, 0]"
    unfolding m by (auto simp: rangeOrder_def staticCodecs_def)
  have t: "map toLower ''pcmu'' = map toLower ''PCMU''"
    by (simp only: toLower_PCMU)
  have ascii: "\<forall>c \<in> set ''pcmu'' \<union> set ''PCMU''. (of_char c :: int) < 128"
    by simp
  from codecsMatch_zero_fields_are_wildcards
         [of "zeroCodec\<lparr>Name := ''pcmu''\<rparr>" ?g "''pcmu''" "''PCMU''" "[]" ?s] n t ascii
  have a: "codecsMatch (zeroCodec\<lparr>Name := ''pcmu''\<rparr>) ?g"
    and f: "EqualFold ''pcmu'' ''PCMU''"
    by blast+
  from codecsMatch_zero_fields_are_wildcards [of zeroCodec ?g "[]" "[]" "[8, 0]" ?s] z r
  have b: "codecsMatch zeroCodec ?g"
    and c: "\<exists>k ks'. [8, 0] = k # ks' \<and> fst (GetPayloadTypeForCodec [8, 0] ?s zeroCodec) = Inr k"
    by blast+
  from c have "fst (GetPayloadTypeForCodec [8, 0] ?s zeroCodec) = Inr 8" by simp
  with n z a b r t f show ?thesis by (intro conjI) simp_all
qed

section \<open>Fmtp equivalence sorts before it trims\<close>

text \<open>
  Claim C1. \<open>equivalentFmtp\<close> sorts the parts as they are split and trims them only
  when it compares them. For the wanted fmtp \<open>b=1;a=2\<close> and the stored fmtp
  \<open>a=2; b=1\<close> the stored part \<open>b=1\<close> keeps its leading space while sorting and
  comes first, so \<open>a=2\<close> is compared with \<open>b=1\<close> and the two strings are not
  equivalent, while without the space they are; against \<open>a=2;b=1;c=3\<close> the part
  counts differ and there is no match. On the session whose only attribute is
  \<open>fmtp:96 a=2; b=1\<close>, the map holds that fmtp under payload type 96, and
  \<open>GetPayloadTypeForCodec\<close> with the wanted fmtp \<open>b=1;a=2\<close> returns codec-not-found
  in every order of the range.
\<close>

theorem equivalentFmtp_sorts_before_trimming:
  "\<not> equivalentFmtp ''b=1;a=2'' ''a=2; b=1''
   \<and> equivalentFmtp ''b=1;a=2'' ''a=2;b=1''
   \<and> \<not> equivalentFmtp ''b=1;a=2'' ''a=2;b=1;c=3''
   \<and> sortStrings (Split ''b=1;a=2'' CHR '';'') = [''a=2'', ''b=1'']
   \<and> sortStrings (Split ''a=2; b=1'' CHR '';'') = ['' b=1'', ''a=2'']
   \<and> fst (GetCodecForPayloadType
          (\<lparr>MediaDescriptions = [\<lparr>Attributes = [\<lparr>Key = ''fmtp'', Value = ''96 a=2; b=1''\<rparr>]\<rparr>]\<rparr>
            :: unit SessionDescription) 96) =
        Inr \<lparr>PayloadType = 96, Name = [], ClockRate = 0, EncodingParameters = [],
             Fmtp = ''a=2; b=1'', RTCPFeedback = []\<rparr>
   \<and> (\<forall>ks. fst (GetPayloadTypeForCodec ks
          (\<lparr>MediaDescriptions = [\<lparr>Attributes = [\<lparr>Key = ''fmtp'', Value = ''96 a=2; b=1''\<rparr>]\<rparr>]\<rparr>
            :: unit SessionDescription) (zeroCodec\<lparr>Fmtp := ''b=1;a=2''\<rparr>)) = Inl ErrCodecNotFound)"
proof -
  let ?s = "\<lparr>MediaDescriptions = [\<lparr>Attributes = [\<lparr>Key = ''fmtp'', Value = ''96 a=2; b=1''\<rparr>]\<rparr>]\<rparr>
            :: unit SessionDescription"
  let ?c = "\<lparr>PayloadType = 96, Name = [], ClockRate = 0, EncodingParameters = [],
             Fmtp = ''a=2; b=1'', RTCPFeedback = []\<rparr>"
  have as: "attributeStrings ?s = [''fmtp:96 a=2; b=1'']"
    by (simp add: attributeStrings_def String_def)
  have m: "fst (buildCodecMap ?s) = staticCodecs(96 \<mapsto> ?c)"
    unfolding buildCodecMap_eq as
    by (simp add: scan_fmtp96 applyWildcard_Nil mergeCodecs_def lookupCodec_def staticCodecs_def
        zeroCodec_def Let_def del: scanAttribute_def)
  have s1: "sortStrings (Split ''b=1;a=2'' CHR '';'') = [''a=2'', ''b=1'']" by simp
  have s2: "sortStrings (Split ''a=2; b=1'' CHR '';'') = ['' b=1'', ''a=2'']" by simp
  have g: "fst (GetCodecForPayloadType ?s 96) = Inr ?c"
    by (simp add: GetCodecForPayloadType_fst m)
  have none: "\<not> codecsMatch (zeroCodec\<lparr>Fmtp := ''b=1;a=2''\<rparr>) c"
    if "fst (buildCodecMap ?s) k = Some c" for k c
    using that not_equivalent_reordered_with_space not_equivalent_empty
    unfolding m
    by (auto simp: codecsMatch_def zeroCodec_def staticCodecs_def split: if_splits)
  have "\<forall>ks. fst (GetPayloadTypeForCodec ks ?s (zeroCodec\<lparr>Fmtp := ''b=1;a=2''\<rparr>)) = Inl ErrCodecNotFound"
    unfolding GetPayloadTypeForCodec_fst
    by (intro allI firstMatch_none) (rule none)
  with not_equivalent_reordered_with_space equivalent_reordered not_equivalent_three_parts
    s1 s2 g
  show ?thesis by (intro conjI)
qed

section \<open>Merging keeps repeated feedback\<close>

text \<open>
  Claim C2. \<open>mergeCodecs\<close> appends the feedback of the fragment to the saved list as
  it is, without looking for the string in the list. On the session with the attribute
  \<open>rtcp-fb:96 nack\<close> twice, \<open>GetCodecForPayloadType\<close> for 96 returns a codec whose
  feedback list is \<open>nack\<close> twice. The wildcard loop does look: on the session with
  the attribute \<open>rtcp-fb:* nack\<close> twice, the codec for payload type 0 has \<open>nack\<close>
  once.
\<close>

theorem mergeCodecs_keeps_duplicate_feedback:
  "RTCPFeedback (lookupCodec
       (mergeCodecs (zeroCodec\<lparr>PayloadType := 96, RTCPFeedback := [''nack'']\<rparr>)
          (mergeCodecs (zeroCodec\<lparr>PayloadType := 96, RTCPFeedback := [''nack'']\<rparr>) staticCodecs))
       96) = [''nack'', ''nack'']
   \<and> fst (GetCodecForPayloadType
          (\<lparr>MediaDescriptions = [\<lparr>Attributes = [\<lparr>Key = ''rtcp-fb'', Value = ''96 nack''\<rparr>,
                                               \<lparr>Key = ''rtcp-fb'', Value = ''96 nack''\<rparr>]\<rparr>]\<rparr>
            :: unit SessionDescription) 96) =
        Inr \<lparr>PayloadType = 96, Name = [], ClockRate = 0, EncodingParameters = [],
             Fmtp = [], RTCPFeedback = [''nack'', ''nack'']\<rparr>
   \<and> fst (GetCodecForPayloadType
          (\<lparr>MediaDescriptions = [\<lparr>Attributes = [\<lparr>Key = ''rtcp-fb'', Value = ''* nack''\<rparr>,
                                               \<lparr>Key = ''rtcp-fb'', Value = ''* nack''\<rparr>]\<rparr>]\<rparr>
            :: unit SessionDescription) 0) =
        Inr \<lparr>PayloadType = 0, Name = ''PCMU'', ClockRate = 8000, EncodingParameters = [],
             Fmtp = [], RTCPFeedback = [''nack'']\<rparr>"
proof -
  let ?s = "\<lparr>MediaDescriptions = [\<lparr>Attributes = [\<lparr>Key = ''rtcp-fb'', Value = ''96 nack''\<rparr>,
                                               \<lparr>Key = ''rtcp-fb'', Value = ''96 nack''\<rparr>]\<rparr>]\<rparr>
            :: unit SessionDescription"
  let ?f = "zeroCodec\<lparr>PayloadType := 96, RTCPFeedback := [''nack'']\<rparr>"
  let ?c = "\<lparr>PayloadType = 96, Name = [], ClockRate = 0, EncodingParameters = [],
             Fmtp = [], RTCPFeedback = [''nack'', ''nack'']\<rparr>"
  have as: "attributeStrings ?s = [''rtcp-fb:96 nack'', ''rtcp-fb:96 nack'']"
    by (simp add: attributeStrings_def String_def)
  have mm: "mergeCodecs ?f (mergeCodecs ?f staticCodecs) = staticCodecs(96 \<mapsto> ?c)"
    by (simp add: mergeCodecs_def lookupCodec_def staticCodecs_def zeroCodec_def Let_def)
  have m: "fst (buildCodecMap ?s) = staticCodecs(96 \<mapsto> ?c)"
    unfolding buildCodecMap_eq as
    by (simp add: scan_rtcpfb96 applyWildcard_Nil mm del: scanAttribute_def)
  have a: "RTCPFeedback (lookupCodec (mergeCodecs ?f (mergeCodecs ?f staticCodecs)) 96)
             = [''nack'', ''nack'']"
    unfolding mm by (simp add: lookupCodec_def)
  have g: "fst (GetCodecForPayloadType ?s 96) = Inr ?c"
    by (simp add: GetCodecForPayloadType_fst m)
  from a g wildcard_twice show ?thesis by (intro conjI)
qed

end
